theory Spec2Isabelle
  imports Main "HOL-Library.Sublist"
begin

section \<open>JavaScript strings\<close>

text \<open>
  A JavaScript string is a sequence of UTF-16 code units, and \<open>s.length\<close> counts code units.
  The model covers the strings whose code units are below 256: a \<open>char\<close> is the code unit
  of that value, so \<open>length\<close> is \<open>.length\<close>. Written to a socket or hashed as text such a
  string is encoded in UTF-8, one byte for a unit below 128 and two bytes for the others;
  \<open>byteLength\<close> is Node's \<open>Buffer.byteLength(s)\<close>.
  \<open>toLowerCase\<close> maps the capital letters of this range (A to Z, U+00C0 to U+00DE but the
  multiplication sign) to their small letters, which lie in the range as well.
  \<open>toUpperCase\<close> maps the small letters (a to z, U+00E0 to U+00FE but the division sign) to
  their capitals, and U+00DF to the two letters SS. The capitals of U+00B5 and U+00FF are
  U+039C and U+0178, outside the range: in a result of \<open>toUpperCase\<close> the units U+00B5 and
  U+00FF stand for these two capitals. Like them they are fixed by \<open>toUpperCase\<close>, they are
  no ASCII unit, and they are the capital of no other unit, so every comparison of an
  upper-cased text with an ASCII text comes out as in JavaScript.
\<close>

definition byteLength :: "string \<Rightarrow> nat" where
  "byteLength s = sum_list (map (\<lambda>c. if (of_char c :: nat) < 128 then 1 else 2) s)"

definition smallLetters :: string where
  "smallLetters =
     ''abcdefghijklmnopqrstuvwxyz''
     @ [CHR 0xE0, CHR 0xE1, CHR 0xE2, CHR 0xE3, CHR 0xE4, CHR 0xE5, CHR 0xE6, CHR 0xE7,
        CHR 0xE8, CHR 0xE9, CHR 0xEA, CHR 0xEB, CHR 0xEC, CHR 0xED, CHR 0xEE, CHR 0xEF,
        CHR 0xF0, CHR 0xF1, CHR 0xF2, CHR 0xF3, CHR 0xF4, CHR 0xF5, CHR 0xF6, CHR 0xF8,
        CHR 0xF9, CHR 0xFA, CHR 0xFB, CHR 0xFC, CHR 0xFD, CHR 0xFE]"

definition capitalLetters :: string where
  "capitalLetters =
     ''ABCDEFGHIJKLMNOPQRSTUVWXYZ''
     @ [CHR 0xC0, CHR 0xC1, CHR 0xC2, CHR 0xC3, CHR 0xC4, CHR 0xC5, CHR 0xC6, CHR 0xC7,
        CHR 0xC8, CHR 0xC9, CHR 0xCA, CHR 0xCB, CHR 0xCC, CHR 0xCD, CHR 0xCE, CHR 0xCF,
        CHR 0xD0, CHR 0xD1, CHR 0xD2, CHR 0xD3, CHR 0xD4, CHR 0xD5, CHR 0xD6, CHR 0xD8,
        CHR 0xD9, CHR 0xDA, CHR 0xDB, CHR 0xDC, CHR 0xDD, CHR 0xDE]"

definition upperChar :: "char \<Rightarrow> string" where
  "upperChar c =
     (if c = CHR 0xDF then ''SS''
      else case map_of (zip smallLetters capitalLetters) c of
             None \<Rightarrow> [c] | Some u \<Rightarrow> [u])"

definition lowerChar :: "char \<Rightarrow> char" where
  "lowerChar c =
     (case map_of (zip capitalLetters smallLetters) c of
        None \<Rightarrow> c | Some l \<Rightarrow> l)"

definition toUpperCase :: "string \<Rightarrow> string" where
  "toUpperCase s = concat (map upperChar s)"

definition toLowerCase :: "string \<Rightarrow> string" where
  "toLowerCase s = map lowerChar s"

text \<open>\<open>s.includes(p)\<close>: \<open>p\<close> occurs in \<open>s\<close> as a contiguous run.\<close>

fun str_includes :: "string \<Rightarrow> string \<Rightarrow> bool" where
  "str_includes [] p = (p = [])"
| "str_includes (c # cs) p = (prefix p (c # cs) \<or> str_includes cs p)"

text \<open>\<open>s.replace(pat, rep)\<close> with a string pattern: the first occurrence only. The
  replacement texts of the program contain no \<open>$\<close>, so no substitution pattern applies.\<close>

fun replace :: "string \<Rightarrow> string \<Rightarrow> string \<Rightarrow> string" where
  "replace [] pat rep = (if pat = [] then rep else [])"
| "replace (c # cs) pat rep =
     (if prefix pat (c # cs) then rep @ drop (length pat) (c # cs)
      else c # replace cs pat rep)"

text \<open>\<open>xs.join(sep)\<close>.\<close>

fun join :: "string \<Rightarrow> string list \<Rightarrow> string" where
  "join sep [] = []"
| "join sep [x] = x"
| "join sep (x # y # ys) = x @ sep @ join sep (y # ys)"

text \<open>\<open>s.trim()\<close>: white space and line terminators among the units below 256.\<close>

definition isWhiteSpace :: "char \<Rightarrow> bool" where
  "isWhiteSpace c = ((of_char c :: nat) \<in> {9, 10, 11, 12, 13, 32, 160})"

definition trim :: "string \<Rightarrow> string" where
  "trim s = rev (dropWhile isWhiteSpace (rev (dropWhile isWhiteSpace s)))"

section \<open>ociUtils.js: signing\<close>

text \<open>
  The request is Node's \<open>ClientRequest\<close>: \<open>setHeader\<close> and \<open>getHeader\<close> treat header names
  case-insensitively (the table is keyed by the lower-cased name) and keep the value as it
  was given, a string or a number.
\<close>

datatype header_value = HStr string | HNum nat

record request =
  "method" :: string
  host :: string
  path :: string
  headers :: "string \<rightharpoonup> header_value"

definition setHeader :: "request \<Rightarrow> string \<Rightarrow> header_value \<Rightarrow> request" where
  "setHeader r name v = r\<lparr>headers := (headers r)(toLowerCase name \<mapsto> v)\<rparr>"

definition getHeader :: "request \<Rightarrow> string \<Rightarrow> header_value option" where
  "getHeader r name = headers r (toLowerCase name)"

text \<open>The \<open>options\<close> argument of \<open>sign\<close>; \<open>body\<close> is absent unless the caller set it.\<close>

record sign_options =
  privateKey :: string
  keyFingerprint :: string
  tenancyId :: string
  userId :: string
  body :: "string option"

text \<open>
  What the signer takes from outside the program: jsSHA's base64 SHA-256 of a text, the key
  type that the http-signature package reads off the key (\<open>None\<close> for key material it cannot
  read), the base64 signature that it computes from the key, the header list and the
  request, and the clock.
\<close>

record crypto =
  sha256_B64 :: "string \<Rightarrow> string"
  keyAlgorithm :: "string \<Rightarrow> string option"
  signatureOf :: "string \<Rightarrow> string list \<Rightarrow> request \<Rightarrow> string"
  dateNow :: string

datatype js_error =
    Error string
  | TypeError string
  | SyntaxError string
  | MissingHeaderError string
  | KeyParseError string

definition falsyHeader :: "header_value option \<Rightarrow> bool" where
  "falsyHeader v = (v = None \<or> v = Some (HStr []) \<or> v = Some (HNum 0))"

definition missingHeader :: "request \<Rightarrow> string list \<Rightarrow> string option" where
  \<comment> \<open>Modelled from the spec: the first listed header, in lower case, that the request
     lacks or holds as the empty text; \<open>(request-target)\<close> and \<open>request-line\<close> are not read
     from the header table.\<close>
  "missingHeader request hs =
     find (\<lambda>h. h \<notin> {''request-line'', ''(request-target)''}
               \<and> (getHeader request h = None \<or> getHeader request h = Some (HStr [])))
       (map toLowerCase hs)"

definition httpSignature_sign ::
    "crypto \<Rightarrow> request \<Rightarrow> string \<Rightarrow> string \<Rightarrow> string list \<Rightarrow> js_error \<times> request + request" where
  \<comment> \<open>Modelled from the spec: \<open>httpSignature.sign\<close> of the http-signature package, which
     is not among the sources. It sets a \<open>Date\<close> header on a request that has none, fails
     when a header of the list is not in the request or when the key material cannot be
     read (the request keeps what was set until then), and else sets the \<open>Authorization\<close>
     header to the scheme's standard form (scheme, key identifier, algorithm, signed-headers
     list, base64 signature). The signature over the canonical concatenation of the listed
     headers is \<open>signatureOf\<close>.\<close>
  "httpSignature_sign cr request key keyId hs =
     (let request1 = (if falsyHeader (getHeader request ''Date'')
                      then setHeader request ''Date'' (HStr (dateNow cr)) else request)
      in case missingHeader request1 hs of
           Some h \<Rightarrow> Inl (MissingHeaderError (h @ '' was not in the request''), request1)
         | None \<Rightarrow>
             (case keyAlgorithm cr key of
                None \<Rightarrow> Inl (KeyParseError ''Failed to parse the private key'', request1)
              | Some alg \<Rightarrow>
                  Inr (setHeader request1 ''Authorization''
                         (HStr (''Signature keyId=\"'' @ keyId
                                @ ''\",algorithm=\"'' @ alg
                                @ ''\",headers=\"'' @ join '' '' hs
                                @ ''\",signature=\"'' @ signatureOf cr key hs request1
                                @ ''\"'')))))"

definition methodsThatRequireExtraHeaders :: "string list" where
  "methodsThatRequireExtraHeaders = [''POST'', ''PUT'', ''PATCH'']"

definition requiresExtraHeaders :: "request \<Rightarrow> bool" where
  \<comment> \<open>\<open>methodsThatRequireExtraHeaders.indexOf(request.method.toUpperCase()) !== -1\<close>\<close>
  "requiresExtraHeaders request =
     (toUpperCase (method request) \<in> set methodsThatRequireExtraHeaders)"

definition headersToSign :: "request \<Rightarrow> string list" where
  \<comment> \<open>the value of the local \<open>headersToSign\<close> when \<open>httpSignature.sign\<close> is called\<close>
  "headersToSign request =
     (if requiresExtraHeaders request
      then [''host'', ''date'', ''(request-target)'']
           @ [''content-type'', ''content-length'', ''x-content-sha256'']
      else [''host'', ''date'', ''(request-target)''])"

definition sign ::
    "crypto \<Rightarrow> request \<Rightarrow> sign_options
       \<Rightarrow> js_error \<times> request \<times> sign_options + request \<times> sign_options" where
  \<comment> \<open>\<open>sign\<close> mutates the request and its options; the model returns both, also when
     \<open>sign\<close> throws (\<open>Inl\<close>, with the exception). It throws when \<open>httpSignature.sign\<close>
     does, and on \<open>.replace\<close> of a missing or numeric header.\<close>
  "sign cr request options =
     (let apiKeyId = tenancyId options @ ''/'' @ userId options @ ''/'' @ keyFingerprint options;
          (request1, options1) =
            (if requiresExtraHeaders request then
               (let b = (case body options of None \<Rightarrow> [] | Some b \<Rightarrow> b);
                    r1 = setHeader request ''Content-Length'' (HNum (length b));
                    r2 = setHeader r1 ''x-content-sha256'' (HStr (sha256_B64 cr b))
                in (r2, options\<lparr>body := Some b\<rparr>))
             else (request, options))
      in case httpSignature_sign cr request1 (privateKey options1) apiKeyId
                (headersToSign request) of
           Inl (e, request2) \<Rightarrow> Inl (e, request2, options1)
         | Inr request2 \<Rightarrow>
             (case getHeader request2 ''Authorization'' of
                Some (HStr a) \<Rightarrow>
                  Inr (setHeader request2 ''Authorization''
                         (HStr (replace a ''Signature '' ''Signature version=\"1\",'')), options1)
              | _ \<Rightarrow>
                  Inl (TypeError ''request.getHeader(...).replace is not a function'',
                       request2, options1)))"

section \<open>ociUtils.js: transport\<close>

text \<open>
  The argument of \<open>https.request\<close> as the program writes it: \<open>method\<close> and \<open>headers\<close> may
  be left out. Node upper-cases the method (\<open>GET\<close> when absent), sets the \<open>Host\<close> header
  from \<open>host\<close> and then each header of the object. The \<open>encoding\<close> entry that
  \<open>writeExportedData\<close> passes is not an option of \<open>https.request\<close> and has no effect.
\<close>

record request_options =
  o_host :: string
  o_path :: string
  o_method :: "string option"
  o_headers :: "(string \<times> string) list"

definition https_request :: "request_options \<Rightarrow> request" where
  "https_request options =
     foldl (\<lambda>r (name, v). setHeader r name (HStr v))
       \<lparr>method = (case o_method options of None \<Rightarrow> ''GET'' | Some m \<Rightarrow>
                     if m = [] then ''GET'' else toUpperCase m),
        host = o_host options, path = o_path options,
        headers = [''host'' \<mapsto> HStr (o_host options)]\<rparr>
       (o_headers options)"

text \<open>
  The server's JSON documents, typed as the program reads them: the resource that the start
  request and the status request return (\<open>jobId\<close>, \<open>status\<close>, \<open>filenames\<close>, \<open>error\<close>), and
  the error document of a failed request (\<open>status\<close>, \<open>title\<close>, \<open>detail\<close>). A promise of the
  transport resolves with what \<open>JSON.parse\<close> gives (an object, and also a text or a number,
  which are JSON documents too) or with the raw text. A chunk of a response stands as its
  text.
\<close>

record resource =
  jobId :: string
  status :: string
  filenames :: "string list"
  error :: string

datatype body_value = Parsed resource | Raw string | Number int

text \<open>What arrives for one request: a failure of the request itself, or a response whose
  stream emits \<open>data\<close> chunks and then \<open>end\<close>, or \<open>error\<close>.\<close>

datatype response_event = Data string | ResponseError js_error | End

record response =
  statusCode :: nat
  statusMessage :: string
  contentType :: "string option"
  events :: "response_event list"

datatype exchange = RequestError js_error | Response response

text \<open>
  Node and the configuration loaded by \<open>utils.getConfigData\<close>: the server (what the
  \<open>n\<close>-th request of the run meets), \<open>JSON.parse\<close> on the two kinds of document (\<open>None\<close>
  when it throws), \<open>os.homedir()\<close>, and \<open>fs.statSync(p).isDirectory()\<close> (\<open>None\<close> when
  \<open>statSync\<close> throws). Failures of the file system while a download is written are
  outside the model.
\<close>

record node =
  net :: "nat \<Rightarrow> request \<Rightarrow> string \<Rightarrow> exchange"
  JSON_parse :: "string \<Rightarrow> body_value option"
  JSON_parse_error :: "string \<Rightarrow> (string \<times> string \<times> string) option"
  homedir :: string
  isDirectory :: "string \<Rightarrow> bool option"
  DOMAIN :: string
  PRIVATE_KEY :: string
  KEY_FINGERPRINT :: string
  TENANCY_ID :: string
  AUTH_USER_ID :: string

text \<open>
  What the run leaves behind: the console lines, the requests put on the wire (the signed
  request and the bytes written after it), the waits of the retry timer, and for every write
  stream opened its path, the chunks written so far and whether it has been ended.
\<close>

datatype line = Log string | ErrorText string | ErrorObject js_error

record world =
  console :: "line list"
  sent :: "(request \<times> string) list"
  slept :: "nat list"
  files :: "(string \<times> string list \<times> bool) list"

text \<open>
  How an awaited call ends: it returns (the promise resolves), it throws (the promise
  rejects), the process exits, or the promise never settles.
\<close>

datatype 'a outcome = Returns 'a | Throws js_error | Exits nat | Never

definition js_toString :: "js_error \<Rightarrow> string" where
  \<comment> \<open>\<open>String(e)\<close> for an error object, as \<open>new Error(e)\<close> takes its message\<close>
  "js_toString e =
     (case e of Error m \<Rightarrow> ''Error: '' @ m
              | TypeError m \<Rightarrow> ''TypeError: '' @ m
              | SyntaxError m \<Rightarrow> ''SyntaxError: '' @ m
              | MissingHeaderError m \<Rightarrow> ''MissingHeaderError: '' @ m
              | KeyParseError m \<Rightarrow> ''KeyParseError: '' @ m)"

fun showDigits :: "nat \<Rightarrow> nat \<Rightarrow> string" where
  "showDigits 0 n = []"
| "showDigits (Suc k) n =
     (if n < 10 then [''0123456789'' ! n]
      else showDigits k (n div 10) @ [''0123456789'' ! (n mod 10)])"

definition showNat :: "nat \<Rightarrow> string" where
  \<comment> \<open>a number in a template literal: its decimal digits\<close>
  "showNat n = showDigits (Suc n) n"

text \<open>The state of one exchange while its events are handled.\<close>

datatype settlement =
    Pending
  | Resolve body_value
  | Reject js_error
  | UncaughtException js_error

definition settle :: "settlement \<Rightarrow> settlement \<Rightarrow> settlement" where
  \<comment> \<open>\<open>resolve\<close> and \<open>reject\<close> act on a pending promise only\<close>
  "settle p r = (case p of Pending \<Rightarrow> r | _ \<Rightarrow> p)"

definition onEnd :: "node \<Rightarrow> response \<Rightarrow> string \<Rightarrow> settlement" where
  \<comment> \<open>the body of the \<open>end\<close> listener after \<open>writableStream.end()\<close>, the same text in both
     functions; an exception of \<open>JSON.parse\<close> leaves the listener uncaught\<close>
  "onEnd nd response responseBody =
     (if statusCode response < 300 then
        (if contentType response = Some ''application/json''
         then (case JSON_parse nd responseBody of
                 None \<Rightarrow> UncaughtException (SyntaxError ''Unexpected token in JSON'')
               | Some v \<Rightarrow> Resolve v)
         else Resolve (Raw responseBody))
      else
        (if contentType response = Some ''application/json''
         then (case JSON_parse_error nd responseBody of
                 None \<Rightarrow> UncaughtException (SyntaxError ''Unexpected token in JSON'')
               | Some (st, title, detail) \<Rightarrow>
                   Reject (Error (st @ '': '' @ title @ '': '' @ detail)))
         else Reject (Error (showNat (statusCode response) @ '': '' @ statusMessage response))))"

fun sendEvents ::
    "node \<Rightarrow> response \<Rightarrow> response_event list \<Rightarrow> string \<Rightarrow> settlement \<Rightarrow> settlement" where
  \<comment> \<open>the listeners of \<open>promisifiedSendRequest\<close>, event by event; \<open>end\<close> is the last event
     of a stream\<close>
  "sendEvents nd response [] responseBody p = p"
| "sendEvents nd response (Data chunk # es) responseBody p =
     sendEvents nd response es (responseBody @ chunk) p"
| "sendEvents nd response (ResponseError e # es) responseBody p =
     sendEvents nd response es responseBody (settle p (Reject (Error (js_toString e))))"
| "sendEvents nd response (End # es) responseBody p =
     (case onEnd nd response responseBody of
        UncaughtException e \<Rightarrow> UncaughtException e
      | r \<Rightarrow> settle p r)"

text \<open>The state of the file variant adds the write stream: the chunks written and whether
  \<open>end()\<close> has been called.\<close>

fun writeEvents ::
    "node \<Rightarrow> response \<Rightarrow> response_event list \<Rightarrow> string \<Rightarrow> string list \<times> bool \<Rightarrow> settlement
       \<Rightarrow> settlement \<times> string list \<times> bool" where
  "writeEvents nd response [] responseBody stream p = (p, stream)"
| "writeEvents nd response (Data chunk # es) responseBody (written, ended) p =
     writeEvents nd response es (responseBody @ chunk) (written @ [chunk], ended) p"
| "writeEvents nd response (ResponseError e # es) responseBody stream p =
     writeEvents nd response es responseBody stream (settle p (Reject (Error (js_toString e))))"
| "writeEvents nd response (End # es) responseBody (written, ended) p =
     (case onEnd nd response responseBody of
        UncaughtException e \<Rightarrow> (UncaughtException e, written, True)
      | r \<Rightarrow> (settle p r, written, True))"

definition settled :: "settlement \<Rightarrow> world \<Rightarrow> body_value outcome \<times> world" where
  \<comment> \<open>what the caller awaiting the promise sees; an uncaught exception ends the process\<close>
  "settled p w =
     (case p of
        Pending \<Rightarrow> (Never, w)
      | Resolve v \<Rightarrow> (Returns v, w)
      | Reject e \<Rightarrow> (Throws e, w)
      | UncaughtException e \<Rightarrow> (Exits 1, w\<lparr>console := console w @ [ErrorObject e]\<rparr>))"

definition signOptions :: "node \<Rightarrow> sign_options" where
  "signOptions nd =
     \<lparr>privateKey = PRIVATE_KEY nd, keyFingerprint = KEY_FINGERPRINT nd,
      tenancyId = TENANCY_ID nd, userId = AUTH_USER_ID nd, body = None\<rparr>"

definition truthy :: "string option \<Rightarrow> bool" where
  "truthy b = (b \<noteq> None \<and> b \<noteq> Some [])"

definition promisifiedSendRequest ::
    "crypto \<Rightarrow> node \<Rightarrow> request_options \<Rightarrow> string option \<Rightarrow> world \<Rightarrow> body_value outcome \<times> world" where
  "promisifiedSendRequest cr nd options body_arg w =
     (let request = https_request options;
          signOptions1 = (if truthy body_arg then (signOptions nd)\<lparr>body := body_arg\<rparr>
                          else signOptions nd)
      in case sign cr request signOptions1 of
           Inl (e, _) \<Rightarrow> (Throws e, w)
         | Inr (request1, _) \<Rightarrow>
             (let payload = (case body_arg of None \<Rightarrow> [] | Some b \<Rightarrow> b);
                  w1 = w\<lparr>sent := sent w @ [(request1, payload)]\<rparr>
              in case net nd (length (sent w)) request1 payload of
                   RequestError e \<Rightarrow> (Throws (Error (js_toString e)), w1)
                 | Response response \<Rightarrow>
                     settled (sendEvents nd response (events response) [] Pending) w1))"

definition promisifiedWriteZipResponse ::
    "crypto \<Rightarrow> node \<Rightarrow> request_options \<Rightarrow> string \<Rightarrow> world \<Rightarrow> body_value outcome \<times> world" where
  "promisifiedWriteZipResponse cr nd options outFile w =
     (let request = https_request options
      in case sign cr request (signOptions nd) of
           Inl (e, _) \<Rightarrow> (Throws e, w)
         | Inr (request1, _) \<Rightarrow>
             (let w1 = w\<lparr>sent := sent w @ [(request1, [])]\<rparr>
              in case net nd (length (sent w)) request1 [] of
                   RequestError e \<Rightarrow> (Throws (Error (js_toString e)), w1)
                 | Response response \<Rightarrow>
                     (case writeEvents nd response (events response) [] ([], False) Pending of
                        (p, written, ended) \<Rightarrow>
                          settled p (w1\<lparr>files := files w1 @ [(outFile, written, ended)]\<rparr>))))"

section \<open>export-da-insights.js: the poller\<close>

definition basePath :: string where
  "basePath = ''/api/v1''"

definition maxStatusRetries :: nat where
  "maxStatusRetries = 20"

definition activeStatuses :: string where
  "activeStatuses = ''SUBMITTED IN_PROGRESS''"

definition taskType :: string where
  "taskType = ''EXPORT''"

definition maxFileLength :: string where
  "maxFileLength = ''100000000''"

text \<open>\<open>encodeURIComponent\<close>: every unit but the unreserved ones becomes the percent-encoded
  bytes of its UTF-8 form.\<close>

definition percent :: "nat \<Rightarrow> string" where
  "percent b = [CHR ''%'', ''0123456789ABCDEF'' ! (b div 16), ''0123456789ABCDEF'' ! (b mod 16)]"

definition uriUnreserved :: "char \<Rightarrow> bool" where
  "uriUnreserved c =
     (c \<in> set ''ABCDEFGHIJKLMNOPQRSTUVWXYZabcdefghijklmnopqrstuvwxyz0123456789-_.!~*()''
      \<or> c = CHR 0x27)"

definition encodeURIComponent :: "string \<Rightarrow> string" where
  "encodeURIComponent s =
     concat (map (\<lambda>c. let n = (of_char c :: nat) in
                       if uriUnreserved c then [c]
                       else if n < 128 then percent n
                       else percent (192 + n div 64) @ percent (128 + n mod 64)) s)"

definition log :: "string \<Rightarrow> world \<Rightarrow> world" where
  \<comment> \<open>\<open>console.log\<close> of a text\<close>
  "log m w = w\<lparr>console := console w @ [Log m]\<rparr>"

definition failureCallback :: "line \<Rightarrow> world \<Rightarrow> 'a outcome \<times> world" where
  \<comment> \<open>\<open>console.error(error); process.exit(1)\<close>: the argument is a text or an error object\<close>
  "failureCallback error_line w = (Exits 1, w\<lparr>console := console w @ [error_line]\<rparr>)"

definition getExportTask ::
    "crypto \<Rightarrow> node \<Rightarrow> string \<Rightarrow> world \<Rightarrow> body_value outcome \<times> world" where
  "getExportTask cr nd exportId w =
     promisifiedSendRequest cr nd
       \<lparr>o_host = DOMAIN nd,
        o_path = basePath @ ''/bots/insights/dataExports/'' @ encodeURIComponent exportId,
        o_method = None, o_headers = []\<rparr>
       None w"

definition isActive :: "string \<Rightarrow> bool" where
  \<comment> \<open>\<open>EXPORTDAINSIGHTS.activeStatuses.includes(result.status.toUpperCase())\<close>\<close>
  "isActive st = str_includes activeStatuses (toUpperCase st)"

definition rejectIfRequestActive ::
    "crypto \<Rightarrow> node \<Rightarrow> string \<Rightarrow> world \<Rightarrow> resource outcome \<times> world" where
  \<comment> \<open>A text or a number has no \<open>status\<close>: \<open>undefined.toUpperCase()\<close> throws inside
     the \<open>try\<close>.
     The rejected promise that the function returns is not awaited there, so the \<open>catch\<close>
     does not see it.\<close>
  "rejectIfRequestActive cr nd exportId w =
     (case getExportTask cr nd exportId w of
        (Returns (Parsed result), w1) \<Rightarrow>
          if isActive (status result)
          then (Throws (Error ''[object Object]''), w1)
          else (Returns result, w1)
      | (Returns (Raw t), w1) \<Rightarrow>
          failureCallback
            (ErrorObject (TypeError ''Cannot read properties of undefined (reading 'toUpperCase')'')) w1
      | (Returns (Number n), w1) \<Rightarrow>
          failureCallback
            (ErrorObject (TypeError ''Cannot read properties of undefined (reading 'toUpperCase')'')) w1
      | (Throws e, w1) \<Rightarrow> failureCallback (ErrorObject e) w1
      | (Exits n, w1) \<Rightarrow> (Exits n, w1)
      | (Never, w1) \<Rightarrow> (Never, w1))"

record retry_options =
  delay :: nat
  factor :: nat
  maxAttempts :: nat
  maxDelay :: nat

record attempt_context =
  attemptNum :: nat
  attemptsRemaining :: nat
  aborted :: bool

definition calculateDelay :: "retry_options \<Rightarrow> attempt_context \<Rightarrow> nat" where
  \<comment> \<open>Modelled from the spec: the backoff of the \<open>retry\<close> helper, which is not among the
     sources. The delay starts at \<open>delay\<close>, multiplies by \<open>factor\<close> each attempt and is
     capped at \<open>maxDelay\<close>.\<close>
  "calculateDelay opts ctx =
     min (delay opts * factor opts ^ (attemptNum ctx - 1)) (maxDelay opts)"

function makeAttempt ::
    "(js_error \<Rightarrow> attempt_context \<Rightarrow> world \<Rightarrow> bool outcome \<times> world)
       \<Rightarrow> (world \<Rightarrow> 'a outcome \<times> world)
       \<Rightarrow> retry_options \<Rightarrow> attempt_context \<Rightarrow> world \<Rightarrow> 'a outcome \<times> world" where
  \<comment> \<open>Modelled from the spec: \<open>retry\<close> of the package @lifeomic/attempt, which is not among
     the sources. It runs the attempt; a rejected attempt goes to \<open>handleError\<close> (which may
     abort: the result \<open>True\<close>), then the helper gives the error back when it is aborted or
     the attempt budget is used up, else waits the backoff delay and tries again. An attempt
     counts against \<open>attemptsRemaining\<close> when it starts, for \<open>maxAttempts\<close> of at least 1.\<close>
  "makeAttempt handleError attempt opts ctx w =
     (if aborted ctx then (Throws (Error ''Attempt aborted''), w)
      else
        let ctx1 = ctx\<lparr>attemptsRemaining := attemptsRemaining ctx - 1\<rparr>
        in case attempt w of
             (Throws err, w1) \<Rightarrow>
               (case handleError err ctx1 w1 of
                  (Returns abort, w2) \<Rightarrow>
                    if abort \<or> attemptsRemaining ctx1 = 0 then (Throws err, w2)
                    else
                      let ctx2 = ctx1\<lparr>attemptNum := attemptNum ctx1 + 1\<rparr>;
                          d = calculateDelay opts ctx2
                      in makeAttempt handleError attempt opts ctx2
                           (if d = 0 then w2 else w2\<lparr>slept := slept w2 @ [d]\<rparr>)
                | (Throws e, w2) \<Rightarrow> (Throws e, w2)
                | (Exits n, w2) \<Rightarrow> (Exits n, w2)
                | (Never, w2) \<Rightarrow> (Never, w2))
           | r \<Rightarrow> r)"
  by pat_completeness auto
termination
  by (relation "measure (\<lambda>(handleError, attempt, opts, ctx, w). attemptsRemaining ctx)") auto

declare makeAttempt.simps [simp del]

definition retry ::
    "(js_error \<Rightarrow> attempt_context \<Rightarrow> world \<Rightarrow> bool outcome \<times> world)
       \<Rightarrow> (world \<Rightarrow> 'a outcome \<times> world) \<Rightarrow> retry_options \<Rightarrow> world \<Rightarrow> 'a outcome \<times> world" where
  \<comment> \<open>Modelled from the spec: the entry of the \<open>retry\<close> helper, with a fresh context and
     no delay before the first attempt.\<close>
  "retry handleError attempt opts w =
     makeAttempt handleError attempt opts
       \<lparr>attemptNum = 0, attemptsRemaining = maxAttempts opts, aborted = False\<rparr> w"

definition retryable :: "js_error \<Rightarrow> bool option" where
  \<comment> \<open>\<open>err.retryable\<close>: no error object of the program carries the property\<close>
  "retryable err = None"

definition stillRunning :: "string \<Rightarrow> string" where
  "stillRunning exportId =
     ''Export process is still running.'' @ [CHR 0x0A]
     @ ''You will have to download the exported data for request ID '' @ exportId
     @ '' at a later time.''"

definition pollOptions :: retry_options where
  \<comment> \<open>the \<open>options\<close> of \<open>waitForTaskCompletion\<close>, without the handler\<close>
  "pollOptions = \<lparr>delay = 200, factor = 3, maxAttempts = maxStatusRetries, maxDelay = 60000\<rparr>"

definition handleError ::
    "string \<Rightarrow> js_error \<Rightarrow> attempt_context \<Rightarrow> world \<Rightarrow> bool outcome \<times> world" where
  \<comment> \<open>the \<open>handleError\<close> of \<open>waitForTaskCompletion\<close>; the result says whether it called
     \<open>context.abort()\<close>\<close>
  "handleError exportId err context w =
     (if attemptsRemaining context < 1
      then failureCallback (ErrorText (stillRunning exportId)) w
      else if retryable err = Some False then (Returns True, w)
      else (Returns False, w))"

definition waitForTaskCompletion ::
    "crypto \<Rightarrow> node \<Rightarrow> string \<Rightarrow> world \<Rightarrow> resource outcome \<times> world" where
  "waitForTaskCompletion cr nd exportId w =
     (case retry (handleError exportId) (rejectIfRequestActive cr nd exportId) pollOptions w of
        (Throws err, w1) \<Rightarrow> failureCallback (ErrorObject err) w1
      | r \<Rightarrow> r)"

section \<open>export-da-insights.js: the orchestrator\<close>

text \<open>\<open>JSON.stringify\<close> of the start request's body: a string is quoted with the escapes of
  JSON, and a property whose value is \<open>undefined\<close> is left out.\<close>

definition escapeJSON :: "char \<Rightarrow> string" where
  "escapeJSON c =
     (let n = (of_char c :: nat) in
      if n = 34 then [CHR 0x5C, CHR 0x22]
      else if n = 92 then [CHR 0x5C, CHR 0x5C]
      else if n = 8 then [CHR 0x5C, CHR ''b'']
      else if n = 9 then [CHR 0x5C, CHR ''t'']
      else if n = 10 then [CHR 0x5C, CHR ''n'']
      else if n = 12 then [CHR 0x5C, CHR ''f'']
      else if n = 13 then [CHR 0x5C, CHR ''r'']
      else if n < 32 then [CHR 0x5C, CHR ''u'', CHR ''0'', CHR ''0'',
                           ''0123456789abcdef'' ! (n div 16), ''0123456789abcdef'' ! (n mod 16)]
      else [c])"

definition quoteJSON :: "string \<Rightarrow> string" where
  "quoteJSON s = [CHR 0x22] @ concat (map escapeJSON s) @ [CHR 0x22]"

definition startBody :: "string option \<Rightarrow> string" where
  \<comment> \<open>\<open>JSON.stringify(body)\<close> for \<open>name\<close>, \<open>taskType\<close> and \<open>insightsDataExport\<close>\<close>
  "startBody taskName =
     ''{'' @ (case taskName of None \<Rightarrow> [] | Some n \<Rightarrow> ''\"name\":'' @ quoteJSON n @ '','')
     @ ''\"taskType\":'' @ quoteJSON taskType @ '',\"insightsDataExport\":true}''"

definition startExportTask ::
    "crypto \<Rightarrow> node \<Rightarrow> string \<Rightarrow> string option \<Rightarrow> string option \<Rightarrow> string option \<Rightarrow> world
       \<Rightarrow> body_value outcome \<times> world" where
  "startExportTask cr nd ident taskName beginDate endDate w =
     (let sinceQueryParm = (case beginDate of
                              Some b \<Rightarrow> if b \<noteq> [] then ''&since='' @ encodeURIComponent b else []
                            | None \<Rightarrow> []);
          untilQueryParm = (case endDate of
                              Some e \<Rightarrow> if e \<noteq> [] then ''&until='' @ encodeURIComponent e else []
                            | None \<Rightarrow> [])
      in promisifiedSendRequest cr nd
           \<lparr>o_host = DOMAIN nd,
            o_path = basePath @ ''/bots/insights/dataExports?botId='' @ encodeURIComponent ident
                     @ ''&maxFileLength='' @ encodeURIComponent maxFileLength
                     @ sinceQueryParm @ untilQueryParm,
            o_method = Some ''POST'',
            o_headers = [(''Content-Type'', ''application/json'')]\<rparr>
           (Some (startBody taskName)) w)"

definition writeExportedData ::
    "crypto \<Rightarrow> node \<Rightarrow> string \<Rightarrow> string \<Rightarrow> string list \<Rightarrow> world
       \<Rightarrow> body_value option outcome \<times> world" where
  \<comment> \<open>The body of the \<open>for\<close> loop ends in \<open>return\<close>: the first iteration leaves the
     function with the promise of the first download, \<open>i++\<close> is never reached, and an
     empty list returns \<open>undefined\<close> (the result \<open>None\<close>).\<close>
  "writeExportedData cr nd exportId outDir fileNames w =
     (let i = 0 in
      if i < length fileNames then
        (let options =
               \<lparr>o_host = DOMAIN nd,
                o_path = basePath @ ''/bots/insights/dataExports/'' @ encodeURIComponent exportId
                         @ ''/files/'' @ encodeURIComponent (fileNames ! i),
                o_method = None, o_headers = []\<rparr>;
             w1 = log (''Downloading '' @ trim outDir @ ''/'' @ fileNames ! i) w
         in case promisifiedWriteZipResponse cr nd options
                   (trim outDir @ ''/'' @ fileNames ! i) w1 of
              (Returns v, w2) \<Rightarrow> (Returns (Some v), w2)
            | (Throws e, w2) \<Rightarrow> (Throws e, w2)
            | (Exits n, w2) \<Rightarrow> (Exits n, w2)
            | (Never, w2) \<Rightarrow> (Never, w2))
      else (Returns None, w))"

text \<open>The date validator. The pattern is \<open>/^\d\d\d\d-[0-1]\d-[0-3]\d$/\<close>; on a text of
  that shape \<open>new Date(date).getTime()\<close> is the UTC midnight of the day in milliseconds
  when the month is 01 to 12 and the day 01 to 31 (a day past the end of the month runs on
  into the next month), and \<open>NaN\<close> otherwise, the result \<open>None\<close>.\<close>

definition isDigit :: "char \<Rightarrow> bool" where
  "isDigit c = (c \<in> set ''0123456789'')"

definition digitVal :: "char \<Rightarrow> int" where
  "digitVal c = int (of_char c) - 48"

definition matchesPattern :: "string \<Rightarrow> bool" where
  "matchesPattern s =
     (case s of
        [y1, y2, y3, y4, h1, m1, m2, h2, d1, d2] \<Rightarrow>
          isDigit y1 \<and> isDigit y2 \<and> isDigit y3 \<and> isDigit y4 \<and> h1 = CHR ''-''
          \<and> m1 \<in> set ''01'' \<and> isDigit m2 \<and> h2 = CHR ''-''
          \<and> d1 \<in> set ''0123'' \<and> isDigit d2
      | _ \<Rightarrow> False)"

definition daysFromCivil :: "int \<Rightarrow> int \<Rightarrow> int \<Rightarrow> int" where
  \<comment> \<open>days from 1970-01-01 to the given day of the proleptic Gregorian calendar\<close>
  "daysFromCivil y m d =
     (let y1 = (if m \<le> 2 then y - 1 else y);
          era = y1 div 400;
          yoe = y1 - era * 400;
          doy = (153 * (if 2 < m then m - 3 else m + 9) + 2) div 5 + d - 1;
          doe = yoe * 365 + yoe div 4 - yoe div 100 + doy
      in era * 146097 + doe - 719468)"

definition getTime :: "string \<Rightarrow> int option" where
  "getTime s =
     (case s of
        [y1, y2, y3, y4, h1, m1, m2, h2, d1, d2] \<Rightarrow>
          (let y = 1000 * digitVal y1 + 100 * digitVal y2 + 10 * digitVal y3 + digitVal y4;
               m = 10 * digitVal m1 + digitVal m2;
               d = 10 * digitVal d1 + digitVal d2
           in if 1 \<le> m \<and> m \<le> 12 \<and> 1 \<le> d \<and> d \<le> 31
              then Some (daysFromCivil y m d * 86400000) else None)
      | _ \<Rightarrow> None)"

definition isDateValid :: "string \<Rightarrow> string option \<Rightarrow> world \<Rightarrow> bool \<times> world" where
  \<comment> \<open>\<open>!dNum && dNum !== 0\<close> holds of \<open>NaN\<close> only\<close>
  "isDateValid type date w =
     (case date of
        None \<Rightarrow> (True, w)
      | Some dt \<Rightarrow>
          if length dt \<noteq> 0 then
            (if \<not> matchesPattern dt
             then (False, log (''The '' @ type @ '' date '' @ dt
                               @ '' is not in the format YYYY-MM-DD.'') w)
             else
               (let dNum = getTime dt in
                if (dNum = None \<or> dNum = Some 0) \<and> dNum \<noteq> Some 0
                then (False, log (''The '' @ type @ '' date '' @ dt @ '' is not a valid date.'') w)
                else (True, w)))
          else (True, w))"

record parameters =
  ident :: string
  taskname :: "string option"
  begindate :: "string option"
  enddate :: "string option"
  outpath :: string
  debug :: "bool option"

definition dispatch ::
    "crypto \<Rightarrow> node \<Rightarrow> parameters \<Rightarrow> string \<Rightarrow> string \<Rightarrow> resource \<Rightarrow> world
       \<Rightarrow> unit outcome \<times> world" where
  \<comment> \<open>the \<open>switch\<close> of \<open>run\<close> on \<open>finalStatus.toUpperCase()\<close>\<close>
  "dispatch cr nd params exportJobId zipFilePath taskResource w =
     (let finalStatus = status taskResource in
      if toUpperCase finalStatus = ''EXPORT_SUCCEEDED'' then
        (case writeExportedData cr nd exportJobId zipFilePath (filenames taskResource) w of
           (Throws err, w1) \<Rightarrow>
             failureCallback (ErrorObject err)
               (log ''Can't download the insights ZIP files. The reported error was:'' w1)
         | (Returns v, w1) \<Rightarrow>
             (Returns (), log (''The export is done. The files are in the '' @ zipFilePath
                               @ '' directory.'') w1)
         | (Exits n, w1) \<Rightarrow> (Exits n, w1)
         | (Never, w1) \<Rightarrow> (Never, w1))
      else if toUpperCase finalStatus = ''EXPORT_FAILED'' then
        (Returns (), log (error taskResource) w)
      else if toUpperCase finalStatus = ''NO_DATA'' then
        (let w1 = log ''There isn't any data to export.'' w
         in (Returns (), if begindate params \<noteq> None \<or> enddate params \<noteq> None
                         then log ''Try a different date range.'' w1 else w1))
      else
        (Returns (), log (''The export task is still running. You'll have to download the file later. The export task ID = ''
                          @ exportJobId) w))"

definition run :: "crypto \<Rightarrow> node \<Rightarrow> parameters \<Rightarrow> world \<Rightarrow> unit outcome \<times> world" where
  \<comment> \<open>Every exception inside \<open>run\<close> reaches its \<open>catch\<close> and \<open>failureCallback\<close>. A start
     response that is not a JSON object has no \<open>jobId\<close>, and the texts built from it read
     \<open>undefined\<close>. The lines of \<open>debug\<close> are not modelled.\<close>
  "run cr nd params w =
     (let zipFilePath = (if prefix ''~/'' (outpath params)
                         then replace (outpath params) ''~'' (homedir nd)
                         else outpath params);
          (dirError, w1) =
            (case isDirectory nd (trim zipFilePath) of
               Some True \<Rightarrow> (False, w)
             | Some False \<Rightarrow> (True, log (zipFilePath @ '' is not a directory.'') w)
             | None \<Rightarrow> (True, log (zipFilePath @ '' doesn't exist.'') w));
          (beginOk, w2) = isDateValid ''begin'' (begindate params) w1;
          (endOk, w3) = isDateValid ''end'' (enddate params) w2;
          errorsFound = (dirError \<or> \<not> beginOk \<or> \<not> endOk)
      in if errorsFound
         then failureCallback
                (ErrorText ''One or more arguments are invalid. Correct the values and try again.'') w3
         else
           case startExportTask cr nd (ident params) (taskname params) (begindate params)
                  (enddate params) w3 of
             (Returns response, w4) \<Rightarrow>
               (let exportJobId = (case response of Parsed r \<Rightarrow> jobId r | _ \<Rightarrow> ''undefined'');
                    w5 = log (''The export job '' @ exportJobId @ '' has started.'' @ [CHR 0x0A]
                              @ ''Waiting for the job to finish...'') w4
                in case waitForTaskCompletion cr nd exportJobId w5 of
                     (Returns taskResource, w6) \<Rightarrow>
                       (case dispatch cr nd params exportJobId zipFilePath taskResource
                               (log (status taskResource) w6) of
                          (Throws err, w7) \<Rightarrow> failureCallback (ErrorObject err) w7
                        | r \<Rightarrow> r)
                   | (Throws err, w6) \<Rightarrow> failureCallback (ErrorObject err) w6
                   | (Exits n, w6) \<Rightarrow> (Exits n, w6)
                   | (Never, w6) \<Rightarrow> (Never, w6))
           | (Throws err, w4) \<Rightarrow> failureCallback (ErrorObject err) w4
           | (Exits n, w4) \<Rightarrow> (Exits n, w4)
           | (Never, w4) \<Rightarrow> (Never, w4))"

section \<open>Notions and example inputs of the properties\<close>

text \<open>The body text that \<open>sign\<close> works on (an absent body reads as the empty text), and
  the header table as it stands when the signature is computed.\<close>

definition bodyText :: "sign_options \<Rightarrow> string" where
  "bodyText options = (case body options of None \<Rightarrow> [] | Some b \<Rightarrow> b)"

definition headersBeforeSignature :: "crypto \<Rightarrow> request \<Rightarrow> sign_options \<Rightarrow> string \<rightharpoonup> header_value" where
  "headersBeforeSignature cr request options =
     (let h1 = (if requiresExtraHeaders request
                then (headers request)
                       (''content-length'' \<mapsto> HNum (length (bodyText options)),
                        ''x-content-sha256'' \<mapsto> HStr (sha256_B64 cr (bodyText options)))
                else headers request)
      in if falsyHeader (h1 ''date'') then h1(''date'' \<mapsto> HStr (dateNow cr)) else h1)"

text \<open>A signer with fixed answers, a start request as \<open>startExportTask\<close> builds it, the
  same request without its \<open>Content-Type\<close> header, and credentials.\<close>

definition exampleCrypto :: crypto where
  "exampleCrypto =
     \<lparr>sha256_B64 = (\<lambda>s. ''47DEQpj8HBSa+/TImW+5JCeuQeRkm5NMpJWZG3hSuFU=''),
      keyAlgorithm = (\<lambda>k. Some ''rsa-sha256''),
      signatureOf = (\<lambda>k hs r. ''c2lnbmF0dXJl''),
      dateNow = ''Mon, 02 Nov 2026 12:00:00 GMT''\<rparr>"

definition examplePost :: request where
  "examplePost =
     \<lparr>method = ''POST'', host = ''oda.example.com'',
      path = ''/api/v1/bots/insights/dataExports?botId=bot1&maxFileLength=100000000'',
      headers = [''host'' \<mapsto> HStr ''oda.example.com'',
                 ''content-type'' \<mapsto> HStr ''application/json'']\<rparr>"


definition exampleOptions :: sign_options where
  "exampleOptions =
     \<lparr>privateKey = ''KEY'', keyFingerprint = ''12:34:56'', tenancyId = ''ocid1.tenancy'',
      userId = ''ocid1.user'', body = None\<rparr>"

text \<open>A server that answers every request with a JSON document whose status is \<open>st\<close>,
  and the world before the run.\<close>

definition statusNode :: "string \<Rightarrow> node" where
  "statusNode st =
     \<lparr>net = (\<lambda>n req payload.
               Response \<lparr>statusCode = 200, statusMessage = ''OK'',
                         contentType = Some ''application/json'',
                         events = [Data ''{\"jobId\":\"job1\",'', Data ''\"status\":\"...\"}'', End]\<rparr>),
      JSON_parse = (\<lambda>doc. Some (Parsed \<lparr>jobId = ''job1'', status = st, filenames = [], error = []\<rparr>)),
      JSON_parse_error = (\<lambda>doc. None),
      homedir = ''/home/oda'',
      isDirectory = (\<lambda>p. Some True),
      DOMAIN = ''oda.example.com'', PRIVATE_KEY = ''KEY'', KEY_FINGERPRINT = ''12:34:56'',
      TENANCY_ID = ''ocid1.tenancy'', AUTH_USER_ID = ''ocid1.user''\<rparr>"

definition emptyWorld :: world where
  "emptyWorld = \<lparr>console = [], sent = [], slept = [], files = []\<rparr>"

text \<open>What the promise of \<open>promisifiedSendRequest\<close> settles to for an exchange, the
  request as \<open>sign\<close> leaves it (signed, or as it stands when \<open>sign\<close> throws), and the
  signed request of \<open>getExportTask\<close>.\<close>

definition received :: "node \<Rightarrow> exchange \<Rightarrow> settlement" where
  "received nd ex =
     (case ex of
        RequestError e \<Rightarrow> Reject (Error (js_toString e))
      | Response response \<Rightarrow> sendEvents nd response (events response) [] Pending)"

definition signedRequest :: "crypto \<Rightarrow> request \<Rightarrow> sign_options \<Rightarrow> request" where
  "signedRequest cr request options =
     (case sign cr request options of Inr (r, opts) \<Rightarrow> r | Inl (e, r, opts) \<Rightarrow> r)"

text \<open>The requests of the run that carry no body can be signed: the key material is
  readable, and the host and the clock text are not empty.\<close>

definition canSign :: "crypto \<Rightarrow> node \<Rightarrow> bool" where
  "canSign cr nd =
     (keyAlgorithm cr (PRIVATE_KEY nd) \<noteq> None \<and> DOMAIN nd \<noteq> [] \<and> dateNow cr \<noteq> [])"

definition pollRequest :: "crypto \<Rightarrow> node \<Rightarrow> string \<Rightarrow> request" where
  "pollRequest cr nd exportId =
     signedRequest cr
       (https_request
          \<lparr>o_host = DOMAIN nd,
           o_path = basePath @ ''/bots/insights/dataExports/'' @ encodeURIComponent exportId,
           o_method = None, o_headers = []\<rparr>)
       (signOptions nd)"

text \<open>A run: the arguments, the task resource that the server reports, a download
  response of two chunks, a server that answers a request for a file with that response and
  any other request with the JSON document of the task, and the requests of the run.\<close>

definition exampleParams :: parameters where
  "exampleParams =
     \<lparr>ident = ''bot1'', taskname = Some ''export1'', begindate = Some ''2024-01-31'',
      enddate = None, outpath = ''/tmp/out'', debug = None\<rparr>"

definition exampleTask :: resource where
  "exampleTask =
     \<lparr>jobId = ''job1'', status = ''EXPORT_SUCCEEDED'', filenames = [''a.zip'', ''b.zip''],
      error = []\<rparr>"

definition zipResponse :: response where
  "zipResponse =
     \<lparr>statusCode = 200, statusMessage = ''OK'', contentType = Some ''application/zip'',
      events = [Data ''PK'', Data ''zip'', End]\<rparr>"

definition exampleNode :: node where
  "exampleNode =
     \<lparr>net = (\<lambda>n req payload.
               if str_includes (path req) ''/files/'' then Response zipResponse
               else Response \<lparr>statusCode = 200, statusMessage = ''OK'',
                               contentType = Some ''application/json'',
                               events = [Data ''{\"jobId\":\"job1\",\"status\":\"EXPORT_SUCCEEDED\",'',
                                         Data ''\"filenames\":[\"a.zip\",\"b.zip\"]}'', End]\<rparr>),
      JSON_parse = (\<lambda>doc. Some (Parsed exampleTask)),
      JSON_parse_error = (\<lambda>doc. None),
      homedir = ''/home/oda'',
      isDirectory = (\<lambda>p. Some True),
      DOMAIN = ''oda.example.com'', PRIVATE_KEY = ''KEY'', KEY_FINGERPRINT = ''12:34:56'',
      TENANCY_ID = ''ocid1.tenancy'', AUTH_USER_ID = ''ocid1.user''\<rparr>"

definition downloadOptions :: "node \<Rightarrow> string \<Rightarrow> string \<Rightarrow> request_options" where
  "downloadOptions nd exportId fileName =
     \<lparr>o_host = DOMAIN nd,
      o_path = basePath @ ''/bots/insights/dataExports/'' @ encodeURIComponent exportId
               @ ''/files/'' @ encodeURIComponent fileName,
      o_method = None, o_headers = []\<rparr>"

definition downloadRequest :: "crypto \<Rightarrow> node \<Rightarrow> string \<Rightarrow> string \<Rightarrow> request" where
  "downloadRequest cr nd exportId fileName =
     signedRequest cr (https_request (downloadOptions nd exportId fileName)) (signOptions nd)"

definition startOptions :: request_options where
  "startOptions =
     \<lparr>o_host = ''oda.example.com'',
      o_path = ''/api/v1/bots/insights/dataExports?botId=bot1&maxFileLength=100000000&since=2024-01-31'',
      o_method = Some ''POST'',
      o_headers = [(''Content-Type'', ''application/json'')]\<rparr>"

section \<open>Properties of the date validator\<close>

lemma getTime_invalid_month: "getTime ''2024-13-01'' = None"
  by (simp add: getTime_def digitVal_def)

lemma getTime_valid: "getTime ''2024-01-31'' = Some 1706659200000"
  by (simp add: getTime_def digitVal_def daysFromCivil_def)

text \<open>
  Claim C8. The date validator rejects \<open>2024-13-01\<close> (the text has the shape of the
  pattern, but month 13 is no date), rejects \<open>20240101\<close> (not the shape of the pattern) and
  accepts \<open>2024-01-31\<close>; each rejection prints its own message, and acceptance prints nothing.
\<close>

theorem isDateValid_examples:
  "isDateValid ty (Some ''2024-13-01'') w
     = (False, log (''The '' @ ty @ '' date 2024-13-01 is not a valid date.'') w)
   \<and> isDateValid ty (Some ''20240101'') w
     = (False, log (''The '' @ ty @ '' date 20240101 is not in the format YYYY-MM-DD.'') w)
   \<and> isDateValid ty (Some ''2024-01-31'') w = (True, w)"
  by (simp add: isDateValid_def matchesPattern_def isDigit_def getTime_invalid_month getTime_valid)

section \<open>Properties of the signer\<close>

lemmas case_defs = toUpperCase_def upperChar_def toLowerCase_def lowerChar_def
  smallLetters_def capitalLetters_def

lemma lower_names:
  "toLowerCase ''Authorization'' = ''authorization''"
  "toLowerCase ''Date'' = ''date''"
  "toLowerCase ''Content-Length'' = ''content-length''"
  "toLowerCase ''Content-Type'' = ''content-type''"
  "toLowerCase ''x-content-sha256'' = ''x-content-sha256''"
  "toLowerCase ''host'' = ''host''"
  "toLowerCase ''date'' = ''date''"
  "toLowerCase ''(request-target)'' = ''(request-target)''"
  "toLowerCase ''content-type'' = ''content-type''"
  "toLowerCase ''content-length'' = ''content-length''"
  by (simp_all add: case_defs)

lemma requiresExtraHeaders_iff:
  "requiresExtraHeaders request \<longleftrightarrow> toUpperCase (method request) \<in> {''POST'', ''PUT'', ''PATCH''}"
  by (simp add: requiresExtraHeaders_def methodsThatRequireExtraHeaders_def)

lemma sign_cases:
  "sign cr request options =
     (let hb = request\<lparr>headers := headersBeforeSignature cr request options\<rparr>;
          opts1 = (if requiresExtraHeaders request then options\<lparr>body := Some (bodyText options)\<rparr>
                   else options)
      in case missingHeader hb (headersToSign request) of
           Some h \<Rightarrow> Inl (MissingHeaderError (h @ '' was not in the request''), hb, opts1)
         | None \<Rightarrow>
             (case keyAlgorithm cr (privateKey options) of
                None \<Rightarrow> Inl (KeyParseError ''Failed to parse the private key'', hb, opts1)
              | Some alg \<Rightarrow>
                  Inr (hb\<lparr>headers := (headers hb)
                           (''authorization'' \<mapsto>
                              HStr (''Signature version=\"1\",keyId=\"''
                                    @ tenancyId options @ ''/'' @ userId options @ ''/''
                                    @ keyFingerprint options
                                    @ ''\",algorithm=\"'' @ alg
                                    @ ''\",headers=\"'' @ join '' '' (headersToSign request)
                                    @ ''\",signature=\"''
                                    @ signatureOf cr (privateKey options) (headersToSign request) hb
                                    @ ''\"''))\<rparr>, opts1)))"
  by (simp add: sign_def httpSignature_sign_def setHeader_def getHeader_def lower_names
        bodyText_def headersBeforeSignature_def Let_def split: option.split)

lemma examplePost_extra: "requiresExtraHeaders examplePost"
  by (simp add: requiresExtraHeaders_iff examplePost_def case_defs)

lemma examplePost_list:
  "headersToSign examplePost
     = [''host'', ''date'', ''(request-target)'',
        ''content-type'', ''content-length'', ''x-content-sha256'']"
  by (simp add: headersToSign_def examplePost_extra)

lemma examplePost_missing:
  "missingHeader (examplePost\<lparr>headers := headersBeforeSignature exampleCrypto examplePost options\<rparr>)
     (headersToSign examplePost) = None"
  by (simp add: examplePost_list missingHeader_def lower_names getHeader_def
        headersBeforeSignature_def examplePost_extra Let_def falsyHeader_def)
     (simp add: examplePost_def exampleCrypto_def)

lemma examplePost_signed:
  "sign exampleCrypto examplePost options
     = Inr (signedRequest exampleCrypto examplePost options,
            options\<lparr>body := Some (bodyText options)\<rparr>)"
  by (simp add: signedRequest_def sign_cases examplePost_missing examplePost_extra Let_def)
     (simp add: exampleCrypto_def)

text \<open>
  Claim C6. For every signed request, that is whenever \<open>sign\<close> returns, the
  \<open>Authorization\<close> header starts with \<open>Signature \<close>, directly followed by the literal
  \<open>version="1",\<close>.
\<close>

theorem sign_authorization_version:
  assumes "sign cr request options = Inr (r, opts)"
  shows "\<exists>rest. getHeader r ''Authorization'' = Some (HStr (''Signature version=\"1\",'' @ rest))"
  using assms
  by (auto simp add: sign_cases getHeader_def lower_names Let_def split: option.splits)

text \<open>
  The start request of the example is signed, and its header starts as the theorem says.
\<close>

theorem sign_authorization_version_witness:
  "\<exists>rest. getHeader (signedRequest exampleCrypto examplePost exampleOptions) ''Authorization''
            = Some (HStr (''Signature version=\"1\",'' @ rest))"
  using sign_authorization_version [OF examplePost_signed] .

text \<open>
  Claim C4, as amended. For every request whose method is POST, PUT or PATCH (in any
  letter case), the signed-header list is \<open>host\<close>, \<open>date\<close>, \<open>(request-target)\<close> followed by
  \<open>content-type\<close>, \<open>content-length\<close>, \<open>x-content-sha256\<close>, in that order, and the
  \<open>Authorization\<close> header of the signed request names the six headers in that order.
\<close>

theorem sign_extra_headers_order:
  assumes "toUpperCase (method request) \<in> {''POST'', ''PUT'', ''PATCH''}"
  shows "headersToSign request
           = [''host'', ''date'', ''(request-target)'',
              ''content-type'', ''content-length'', ''x-content-sha256'']
         \<and> (\<forall>r opts. sign cr request options = Inr (r, opts) \<longrightarrow>
               (\<exists>alg sig. keyAlgorithm cr (privateKey options) = Some alg
                 \<and> getHeader r ''Authorization''
                   = Some (HStr (''Signature version=\"1\",keyId=\"''
                         @ tenancyId options @ ''/'' @ userId options @ ''/'' @ keyFingerprint options
                         @ ''\",algorithm=\"'' @ alg
                         @ ''\",headers=\"host date (request-target) content-type content-length x-content-sha256\",signature=\"''
                         @ sig @ ''\"''))))"
proof -
  from assms have extra: "requiresExtraHeaders request"
    by (simp add: requiresExtraHeaders_iff)
  then have hs: "headersToSign request
           = [''host'', ''date'', ''(request-target)'',
              ''content-type'', ''content-length'', ''x-content-sha256'']"
    by (simp add: headersToSign_def)
  have "\<exists>alg sig. keyAlgorithm cr (privateKey options) = Some alg
                 \<and> getHeader r ''Authorization''
                   = Some (HStr (''Signature version=\"1\",keyId=\"''
                         @ tenancyId options @ ''/'' @ userId options @ ''/'' @ keyFingerprint options
                         @ ''\",algorithm=\"'' @ alg
                         @ ''\",headers=\"host date (request-target) content-type content-length x-content-sha256\",signature=\"''
                         @ sig @ ''\"''))"
    if "sign cr request options = Inr (r, opts)" for r opts
    using that
    by (auto simp add: sign_cases hs getHeader_def lower_names Let_def split: option.splits)
  with hs show ?thesis
    by blast
qed

text \<open>
  The start request of the example is a POST: its list is the one of the theorem, and so
  is the list in its \<open>Authorization\<close> header.
\<close>

theorem sign_extra_headers_order_witness:
  "headersToSign examplePost
         = [''host'', ''date'', ''(request-target)'',
            ''content-type'', ''content-length'', ''x-content-sha256'']
   \<and> (\<exists>sig. getHeader (signedRequest exampleCrypto examplePost exampleOptions) ''Authorization''
         = Some (HStr (''Signature version=\"1\",keyId=\"ocid1.tenancy/ocid1.user/12:34:56''
                       @ ''\",algorithm=\"rsa-sha256''
                       @ ''\",headers=\"host date (request-target) content-type content-length x-content-sha256\",signature=\"''
                       @ sig @ ''\"'')))"
proof -
  have h: "toUpperCase (method examplePost) \<in> {''POST'', ''PUT'', ''PATCH''}"
    by (simp add: examplePost_def case_defs)
  from sign_extra_headers_order [OF h, of exampleCrypto exampleOptions]
  have l: "headersToSign examplePost
         = [''host'', ''date'', ''(request-target)'',
            ''content-type'', ''content-length'', ''x-content-sha256'']"
    and a: "\<exists>alg sig. keyAlgorithm exampleCrypto (privateKey exampleOptions) = Some alg
                 \<and> getHeader (signedRequest exampleCrypto examplePost exampleOptions) ''Authorization''
                   = Some (HStr (''Signature version=\"1\",keyId=\"''
                         @ tenancyId exampleOptions @ ''/'' @ userId exampleOptions @ ''/''
                         @ keyFingerprint exampleOptions
                         @ ''\",algorithm=\"'' @ alg
                         @ ''\",headers=\"host date (request-target) content-type content-length x-content-sha256\",signature=\"''
                         @ sig @ ''\"''))"
    using examplePost_signed [of exampleOptions] by blast+
  from a obtain alg sig where "keyAlgorithm exampleCrypto (privateKey exampleOptions) = Some alg"
    and g: "getHeader (signedRequest exampleCrypto examplePost exampleOptions) ''Authorization''
                   = Some (HStr (''Signature version=\"1\",keyId=\"''
                         @ tenancyId exampleOptions @ ''/'' @ userId exampleOptions @ ''/''
                         @ keyFingerprint exampleOptions
                         @ ''\",algorithm=\"'' @ alg
                         @ ''\",headers=\"host date (request-target) content-type content-length x-content-sha256\",signature=\"''
                         @ sig @ ''\"''))"
    by blast
  then have "alg = ''rsa-sha256''"
    by (simp add: exampleCrypto_def)
  with g have "getHeader (signedRequest exampleCrypto examplePost exampleOptions) ''Authorization''
         = Some (HStr (''Signature version=\"1\",keyId=\"ocid1.tenancy/ocid1.user/12:34:56''
                       @ ''\",algorithm=\"rsa-sha256''
                       @ ''\",headers=\"host date (request-target) content-type content-length x-content-sha256\",signature=\"''
                       @ sig @ ''\"''))"
    by (simp add: exampleOptions_def)
  with l show ?thesis
    by blast
qed

text \<open>
  Claim C4 as stated fails: for the POST of the example the list does not end in
  \<open>content-length\<close>, \<open>x-content-sha256\<close>, \<open>content-type\<close>, nor does it hold the three in that
  relative order, since \<open>content-type\<close> comes first.
\<close>

theorem headersToSign_order_counterexample:
  "headersToSign examplePost
     \<noteq> [''host'', ''date'', ''(request-target)'',
         ''content-length'', ''x-content-sha256'', ''content-type'']
   \<and> \<not> subseq [''content-length'', ''x-content-sha256'', ''content-type'']
           (headersToSign examplePost)"
  by (simp add: examplePost_list)

lemma byteLength_ascii: "\<forall>c \<in> set s. (of_char c :: nat) < 128 \<Longrightarrow> byteLength s = length s"
  by (induction s) (simp_all add: byteLength_def)

lemma sign_content_length:
  assumes "toUpperCase (method request) \<in> {''POST'', ''PUT'', ''PATCH''}"
  shows "getHeader (signedRequest cr request options) ''Content-Length''
           = Some (HNum (length (case body options of None \<Rightarrow> [] | Some b \<Rightarrow> b)))"
  using assms
  by (simp add: signedRequest_def sign_cases getHeader_def lower_names headersBeforeSignature_def
        requiresExtraHeaders_iff bodyText_def Let_def split: option.split)

text \<open>
  Claim C5 at a body that is not ASCII. \<open>sign\<close> sets \<open>Content-Length\<close> to
  \<open>options.body.length\<close>, the number of UTF-16 code units. The start body for the
  one-letter task name U+00E9 has 58 code units and 59 bytes: the header says 58.
\<close>

theorem sign_content_length_counts_code_units:
  "(case sign exampleCrypto examplePost (exampleOptions\<lparr>body := Some (startBody (Some [CHR 0xE9]))\<rparr>) of
      Inr (r, opts) \<Rightarrow> getHeader r ''Content-Length'' | Inl e \<Rightarrow> None) = Some (HNum 58)
   \<and> byteLength (startBody (Some [CHR 0xE9])) = 59"
proof -
  have up: "toUpperCase (method examplePost) \<in> {''POST'', ''PUT'', ''PATCH''}"
    by (simp add: examplePost_def case_defs)
  have len: "length (startBody (Some [CHR 0xE9])) = 58"
    by (simp add: startBody_def quoteJSON_def escapeJSON_def taskType_def)
  have bytes: "byteLength (startBody (Some [CHR 0xE9])) = 59"
    by (simp add: startBody_def quoteJSON_def escapeJSON_def taskType_def byteLength_def)
  show ?thesis
    using sign_content_length [OF up, of exampleCrypto
            "exampleOptions\<lparr>body := Some (startBody (Some [CHR 0xE9]))\<rparr>"]
    by (simp add: examplePost_signed len bytes)
qed



lemma signedRequest_fields:
  "method (signedRequest cr rq opts) = method rq \<and> host (signedRequest cr rq opts) = host rq
   \<and> path (signedRequest cr rq opts) = path rq"
  by (simp add: signedRequest_def sign_cases Let_def split: option.split)









section \<open>Properties of the poller\<close>

lemma upper_of_upper: "toUpperCase (upperChar c) = upperChar c"
  by (simp add: case_defs)

lemma toUpperCase_idem: "toUpperCase (toUpperCase s) = toUpperCase s"
proof (induction s)
  case Nil
  show ?case by (simp add: toUpperCase_def)
next
  case (Cons c s)
  have app: "toUpperCase (a @ b) = toUpperCase a @ toUpperCase b" for a b
    by (simp add: toUpperCase_def)
  have "toUpperCase (c # s) = upperChar c @ toUpperCase s"
    by (simp add: toUpperCase_def)
  then show ?case
    by (simp add: app upper_of_upper Cons.IH)
qed

lemma str_includes_sublist: "str_includes s p \<longleftrightarrow> sublist p s"
  by (induction s) (auto simp: sublist_Cons_right)

lemma isActive_iff: "isActive st \<longleftrightarrow> sublist (toUpperCase st) ''SUBMITTED IN_PROGRESS''"
  by (simp only: isActive_def activeStatuses_def str_includes_sublist)

lemma isActive_listed:
  "toUpperCase st \<in> {''SUBMITTED'', ''IN_PROGRESS''} \<Longrightarrow> isActive st"
  by (auto simp add: isActive_def activeStatuses_def)

text \<open>
  Claim C10. Status handling does not depend on letter case: the poller classifies a
  status \<open>s\<close> as it classifies \<open>s\<close> in upper case, and the \<open>switch\<close> of \<open>run\<close> does the same
  for a task resource with status \<open>s\<close> and with \<open>s\<close> in upper case (same outcome, same
  console lines, same requests).
\<close>

theorem case_insensitive:
  "isActive s = isActive (toUpperCase s)
   \<and> dispatch cr nd params exportJobId zipFilePath (taskResource\<lparr>status := s\<rparr>) w
       = dispatch cr nd params exportJobId zipFilePath (taskResource\<lparr>status := toUpperCase s\<rparr>) w"
  by (simp add: isActive_def dispatch_def toUpperCase_idem)

text \<open>
  At the status \<open>no_data\<close> with a begin date: the lines of \<open>NO_DATA\<close>, with the hint.
\<close>

theorem case_insensitive_witness:
  "isActive ''no_data'' = isActive ''NO_DATA''
   \<and> dispatch exampleCrypto (statusNode ''no_data'') exampleParams ''job1'' ''/tmp/out''
         (exampleTask\<lparr>status := ''no_data''\<rparr>) emptyWorld
       = (Returns (),
          \<lparr>console = [Log ''There isn't any data to export.'', Log ''Try a different date range.''],
           sent = [], slept = [], files = []\<rparr>)"
proof -
  have up: "toUpperCase ''no_data'' = ''NO_DATA''" "toUpperCase ''NO_DATA'' = ''NO_DATA''"
    by (simp_all add: case_defs)
  have "dispatch exampleCrypto (statusNode ''no_data'') exampleParams ''job1'' ''/tmp/out''
         (exampleTask\<lparr>status := ''NO_DATA''\<rparr>) emptyWorld
       = (Returns (),
          \<lparr>console = [Log ''There isn't any data to export.'', Log ''Try a different date range.''],
           sent = [], slept = [], files = []\<rparr>)"
    by (simp add: dispatch_def up log_def emptyWorld_def exampleParams_def Let_def)
  with case_insensitive [of "''no_data''" exampleCrypto "statusNode ''no_data''" exampleParams
         "''job1''" "''/tmp/out''" exampleTask emptyWorld]
  show ?thesis
    by (simp add: up)
qed

lemma https_request_get:
  "https_request \<lparr>o_host = h, o_path = p, o_method = None, o_headers = []\<rparr>
     = \<lparr>method = ''GET'', host = h, path = p, headers = [''host'' \<mapsto> HStr h]\<rparr>"
  by (simp add: https_request_def)

lemma get_plain: "\<not> requiresExtraHeaders \<lparr>method = ''GET'', host = h, path = p, headers = hs\<rparr>"
  by (simp add: requiresExtraHeaders_iff case_defs)

lemma get_missing:
  "missingHeader
     (\<lparr>method = ''GET'', host = DOMAIN nd, path = p, headers = [''host'' \<mapsto> HStr (DOMAIN nd)]\<rparr>
        \<lparr>headers := headersBeforeSignature cr
           \<lparr>method = ''GET'', host = DOMAIN nd, path = p, headers = [''host'' \<mapsto> HStr (DOMAIN nd)]\<rparr>
           options\<rparr>)
     (headersToSign \<lparr>method = ''GET'', host = DOMAIN nd, path = p,
                      headers = [''host'' \<mapsto> HStr (DOMAIN nd)]\<rparr>) = None
   \<longleftrightarrow> DOMAIN nd \<noteq> [] \<and> dateNow cr \<noteq> []"
  by (simp add: headersToSign_def get_plain missingHeader_def lower_names getHeader_def
        headersBeforeSignature_def Let_def falsyHeader_def)

lemma sign_get:
  "canSign cr nd \<Longrightarrow>
     sign cr (https_request \<lparr>o_host = DOMAIN nd, o_path = p, o_method = None, o_headers = []\<rparr>)
       (signOptions nd)
     = Inr (signedRequest cr
              (https_request \<lparr>o_host = DOMAIN nd, o_path = p, o_method = None, o_headers = []\<rparr>)
              (signOptions nd), signOptions nd)"
  using get_missing [where nd = nd and p = p and cr = cr and options = "signOptions nd"]
  by (auto simp add: signedRequest_def https_request_get sign_cases get_plain Let_def canSign_def
        signOptions_def split: option.split)

lemma sign_get_thrown:
  "\<not> canSign cr nd \<Longrightarrow>
     \<exists>e r opts.
       sign cr (https_request \<lparr>o_host = DOMAIN nd, o_path = p, o_method = None, o_headers = []\<rparr>)
         (signOptions nd) = Inl (e, r, opts)"
  using get_missing [where nd = nd and p = p and cr = cr and options = "signOptions nd"]
  by (auto simp add: https_request_get sign_cases get_plain Let_def canSign_def
        signOptions_def split: option.split)

lemma promisifiedSendRequest_signed:
  assumes "sign cr (https_request ropts)
             (if truthy body_arg then (signOptions nd)\<lparr>body := body_arg\<rparr> else signOptions nd)
           = Inr (rq, opts)"
  shows "promisifiedSendRequest cr nd ropts body_arg w
     = settled (received nd (net nd (length (sent w)) rq
                  (case body_arg of None \<Rightarrow> [] | Some b \<Rightarrow> b)))
         (w\<lparr>sent := sent w @ [(rq, case body_arg of None \<Rightarrow> [] | Some b \<Rightarrow> b)]\<rparr>)"
  using assms
  by (simp add: promisifiedSendRequest_def received_def settled_def Let_def
        split: exchange.split)

lemma promisifiedSendRequest_thrown:
  assumes "sign cr (https_request ropts)
             (if truthy body_arg then (signOptions nd)\<lparr>body := body_arg\<rparr> else signOptions nd)
           = Inl (e, r, opts)"
  shows "promisifiedSendRequest cr nd ropts body_arg w = (Throws e, w)"
  using assms by (simp add: promisifiedSendRequest_def Let_def)

lemma getExportTask_eq:
  assumes "canSign cr nd"
  shows "getExportTask cr nd exportId w
     = settled (received nd (net nd (length (sent w)) (pollRequest cr nd exportId) []))
         (w\<lparr>sent := sent w @ [(pollRequest cr nd exportId, [])]\<rparr>)"
proof -
  let ?o = "\<lparr>o_host = DOMAIN nd,
             o_path = basePath @ ''/bots/insights/dataExports/'' @ encodeURIComponent exportId,
             o_method = None, o_headers = []\<rparr>"
  have "sign cr (https_request ?o)
          (if truthy None then (signOptions nd)\<lparr>body := None\<rparr> else signOptions nd)
        = Inr (pollRequest cr nd exportId, signOptions nd)"
    using sign_get [OF assms] by (simp add: truthy_def pollRequest_def)
  from promisifiedSendRequest_signed [OF this] show ?thesis
    by (simp add: getExportTask_def)
qed

lemma getExportTask_thrown:
  assumes "\<not> canSign cr nd"
  shows "\<exists>e. getExportTask cr nd exportId w = (Throws e, w)"
proof -
  let ?o = "\<lparr>o_host = DOMAIN nd,
             o_path = basePath @ ''/bots/insights/dataExports/'' @ encodeURIComponent exportId,
             o_method = None, o_headers = []\<rparr>"
  from sign_get_thrown [OF assms] obtain e r opts
    where "sign cr (https_request ?o) (signOptions nd) = Inl (e, r, opts)"
    by blast
  then have "sign cr (https_request ?o)
          (if truthy None then (signOptions nd)\<lparr>body := None\<rparr> else signOptions nd)
        = Inl (e, r, opts)"
    by (simp add: truthy_def)
  from promisifiedSendRequest_thrown [OF this] show ?thesis
    by (simp add: getExportTask_def)
qed

lemma rejectIfRequestActive_active:
  assumes "canSign cr nd"
    and "received nd (net nd (length (sent w)) (pollRequest cr nd exportId) []) = Resolve (Parsed r)"
    and "isActive (status r)"
  shows "rejectIfRequestActive cr nd exportId w
           = (Throws (Error ''[object Object]''),
              w\<lparr>sent := sent w @ [(pollRequest cr nd exportId, [])]\<rparr>)"
  using assms(2,3) by (simp add: rejectIfRequestActive_def getExportTask_eq [OF assms(1)] settled_def)

lemma rejectIfRequestActive_terminal:
  assumes "canSign cr nd"
    and "received nd (net nd (length (sent w)) (pollRequest cr nd exportId) []) = Resolve (Parsed r)"
    and "\<not> isActive (status r)"
  shows "rejectIfRequestActive cr nd exportId w
           = (Returns r, w\<lparr>sent := sent w @ [(pollRequest cr nd exportId, [])]\<rparr>)"
  using assms(2,3) by (simp add: rejectIfRequestActive_def getExportTask_eq [OF assms(1)] settled_def)

lemma rejectIfRequestActive_fetch:
  "length (sent (snd (rejectIfRequestActive cr nd exportId w))) \<le> length (sent w) + 1"
proof (cases "canSign cr nd")
  case True
  then show ?thesis
    by (simp add: rejectIfRequestActive_def getExportTask_eq settled_def failureCallback_def
          split: settlement.split body_value.split)
next
  case False
  from getExportTask_thrown [OF this] obtain e
    where "getExportTask cr nd exportId w = (Throws e, w)"
    by blast
  then show ?thesis
    by (simp add: rejectIfRequestActive_def failureCallback_def)
qed

lemma calculateDelay_pollOptions:
  "calculateDelay pollOptions ctx = min (200 * 3 ^ (attemptNum ctx - 1)) 60000"
  by (simp add: calculateDelay_def pollOptions_def)

lemma backoff_nonzero: "(min (200 * 3 ^ k) (60000::nat) = 0) = False"
  by simp

lemma makeAttempt_exhausted:
  assumes "canSign cr nd" and "attemptsRemaining ctx = Suc n" and "\<not> aborted ctx"
    and "\<forall>k\<le>n. \<exists>r. received nd (net nd (length (sent w) + k) (pollRequest cr nd exportId) [])
                        = Resolve (Parsed r) \<and> isActive (status r)"
  shows "makeAttempt (handleError exportId) (rejectIfRequestActive cr nd exportId) pollOptions ctx w
     = (Exits 1,
        w\<lparr>console := console w @ [ErrorText (stillRunning exportId)],
          sent := sent w @ replicate (Suc n) (pollRequest cr nd exportId, []),
          slept := slept w @ map (\<lambda>k. min (200 * 3 ^ (k - 1)) 60000)
                               [attemptNum ctx + 1 ..< attemptNum ctx + Suc n]\<rparr>)"
  using assms(2-)
proof (induction n arbitrary: ctx w)
  case 0
  from "0.prems"(3) obtain r
    where "received nd (net nd (length (sent w)) (pollRequest cr nd exportId) []) = Resolve (Parsed r)"
      and "isActive (status r)"
    by auto
  then have att: "rejectIfRequestActive cr nd exportId w
           = (Throws (Error ''[object Object]''),
              w\<lparr>sent := sent w @ [(pollRequest cr nd exportId, [])]\<rparr>)"
    by (rule rejectIfRequestActive_active [OF assms(1)])
  show ?case
    by (subst makeAttempt.simps) (simp add: att "0.prems" handleError_def failureCallback_def)
next
  case (Suc n)
  let ?w1 = "w\<lparr>sent := sent w @ [(pollRequest cr nd exportId, [])]\<rparr>"
  let ?d = "min (200 * 3 ^ attemptNum ctx) (60000::nat)"
  let ?w2 = "?w1\<lparr>slept := slept w @ [?d]\<rparr>"
  let ?ctx2 = "ctx\<lparr>attemptsRemaining := Suc n, attemptNum := attemptNum ctx + 1\<rparr>"
  from "Suc.prems"(3) obtain r
    where "received nd (net nd (length (sent w)) (pollRequest cr nd exportId) []) = Resolve (Parsed r)"
      and "isActive (status r)"
    by force
  then have att: "rejectIfRequestActive cr nd exportId w = (Throws (Error ''[object Object]''), ?w1)"
    by (rule rejectIfRequestActive_active [OF assms(1)])
  have step: "makeAttempt (handleError exportId) (rejectIfRequestActive cr nd exportId) pollOptions ctx w
      = makeAttempt (handleError exportId) (rejectIfRequestActive cr nd exportId) pollOptions ?ctx2 ?w2"
    by (subst makeAttempt.simps)
       (simp add: att "Suc.prems" handleError_def retryable_def calculateDelay_pollOptions Let_def
          backoff_nonzero)
  have later: "\<forall>k\<le>n. \<exists>r. received nd (net nd (length (sent ?w2) + k) (pollRequest cr nd exportId) [])
                        = Resolve (Parsed r) \<and> isActive (status r)"
  proof (intro allI impI)
    fix k assume "k \<le> n"
    then have "Suc k \<le> Suc n" by simp
    with "Suc.prems"(3) have "\<exists>r. received nd (net nd (length (sent w) + Suc k) (pollRequest cr nd exportId) [])
                        = Resolve (Parsed r) \<and> isActive (status r)"
      by blast
    then show "\<exists>r. received nd (net nd (length (sent ?w2) + k) (pollRequest cr nd exportId) [])
                        = Resolve (Parsed r) \<and> isActive (status r)"
      by simp
  qed
  have rest: "makeAttempt (handleError exportId) (rejectIfRequestActive cr nd exportId) pollOptions ?ctx2 ?w2
     = (Exits 1,
        ?w2\<lparr>console := console ?w2 @ [ErrorText (stillRunning exportId)],
          sent := sent ?w2 @ replicate (Suc n) (pollRequest cr nd exportId, []),
          slept := slept ?w2 @ map (\<lambda>k. min (200 * 3 ^ (k - 1)) 60000)
                               [attemptNum ?ctx2 + 1 ..< attemptNum ?ctx2 + Suc n]\<rparr>)"
    using "Suc.prems"(2) later by (intro Suc.IH) simp_all
  have upt: "[attemptNum ctx + 1 ..< attemptNum ctx + Suc (Suc n)]
               = (attemptNum ctx + 1) # [attemptNum ctx + 1 + 1 ..< attemptNum ctx + 1 + Suc n]"
    by (simp add: upt_conv_Cons)
  show ?case
    unfolding step rest upt by (simp add: replicate_append_same)
qed

lemma makeAttempt_fetches:
  "length (sent (snd (makeAttempt (handleError exportId) (rejectIfRequestActive cr nd exportId)
                        opts ctx w)))
     \<le> length (sent w) + max 1 (attemptsRemaining ctx)"
proof (induction "attemptsRemaining ctx" arbitrary: ctx w rule: less_induct)
  case less
  obtain out w1 where att: "rejectIfRequestActive cr nd exportId w = (out, w1)"
    by (cases "rejectIfRequestActive cr nd exportId w")
  have w1: "length (sent w1) \<le> length (sent w) + 1"
    using rejectIfRequestActive_fetch [of cr nd exportId w] by (simp add: att)
  show ?case
  proof (cases "aborted ctx")
    case True
    then show ?thesis
      by (subst makeAttempt.simps) simp
  next
    case False
    note live = this
    show ?thesis
    proof (cases out)
      case (Throws err)
      show ?thesis
      proof (cases "attemptsRemaining ctx - 1 = 0")
        case True
        then show ?thesis
          using w1
          by (subst makeAttempt.simps)
             (simp add: live att Throws handleError_def failureCallback_def)
      next
        case more: False
        let ?ctx2 = "ctx\<lparr>attemptsRemaining := attemptsRemaining ctx - 1,
                         attemptNum := attemptNum ctx + 1\<rparr>"
        let ?d = "calculateDelay opts ?ctx2"
        let ?w2 = "if ?d = 0 then w1 else w1\<lparr>slept := slept w1 @ [?d]\<rparr>"
        have step: "makeAttempt (handleError exportId) (rejectIfRequestActive cr nd exportId) opts ctx w
            = makeAttempt (handleError exportId) (rejectIfRequestActive cr nd exportId) opts ?ctx2 ?w2"
          using more
          by (subst makeAttempt.simps)
             (simp add: live att Throws handleError_def retryable_def Let_def)
        have "attemptsRemaining ?ctx2 < attemptsRemaining ctx"
          using more by simp
        from less [OF this, of ?w2]
        have A: "length (sent (snd (makeAttempt (handleError exportId)
                  (rejectIfRequestActive cr nd exportId) opts ?ctx2 ?w2)))
              \<le> length (sent ?w2) + max 1 (attemptsRemaining ?ctx2)" .
        have B: "length (sent ?w2) \<le> length (sent w) + 1"
          using w1 by simp
        have C: "max 1 (attemptsRemaining ?ctx2) + 1 = max 1 (attemptsRemaining ctx)"
          using more by simp
        have "length (sent (snd (makeAttempt (handleError exportId)
                  (rejectIfRequestActive cr nd exportId) opts ?ctx2 ?w2)))
              \<le> length (sent w) + max 1 (attemptsRemaining ctx)"
          using A B C by linarith
        then show ?thesis
          unfolding step .
      qed
    next
      case (Returns v)
      then show ?thesis
        using w1 by (subst makeAttempt.simps) (simp add: live att)
    next
      case (Exits k)
      then show ?thesis
        using w1 by (subst makeAttempt.simps) (simp add: live att)
    next
      case Never
      then show ?thesis
        using w1 by (subst makeAttempt.simps) (simp add: live att)
    qed
  qed
qed

lemma waitForTaskCompletion_fetches:
  "length (sent (snd (waitForTaskCompletion cr nd exportId w))) \<le> length (sent w) + 20"
proof -
  let ?r = "retry (handleError exportId) (rejectIfRequestActive cr nd exportId) pollOptions w"
  have "length (sent (snd ?r)) \<le> length (sent w) + 20"
    using makeAttempt_fetches [of exportId cr nd pollOptions
            "\<lparr>attemptNum = 0, attemptsRemaining = maxAttempts pollOptions, aborted = False\<rparr>" w]
    by (simp add: retry_def pollOptions_def maxStatusRetries_def)
  moreover have "sent (snd (waitForTaskCompletion cr nd exportId w)) = sent (snd ?r)"
    by (cases ?r) (simp add: waitForTaskCompletion_def failureCallback_def split: outcome.split)
  ultimately show ?thesis
    by simp
qed

text \<open>
  Claim C3. The options of the poller are delay 200, factor 3, at most 20 attempts and a
  ceiling of 60000; the wait after attempt \<open>k\<close> is \<open>min (200 * 3 ^ (k - 1)) 60000\<close>; whatever
  the server answers, the poller issues at most 20 status requests; and when the status
  request can be signed and the first 20 status requests all meet an active status, the
  process exits with code 1 after the 20th, having printed the message that names the task
  identifier, with 19 waits between the 20 requests.
\<close>

theorem waitForTaskCompletion_backoff_and_budget:
  assumes "canSign cr nd"
    and "\<forall>k<20. \<exists>r. received nd (net nd (length (sent w) + k) (pollRequest cr nd exportId) [])
                        = Resolve (Parsed r) \<and> isActive (status r)"
  shows "pollOptions = \<lparr>delay = 200, factor = 3, maxAttempts = 20, maxDelay = 60000\<rparr>
    \<and> calculateDelay pollOptions ctx = min (200 * 3 ^ (attemptNum ctx - 1)) 60000
    \<and> length (sent (snd (waitForTaskCompletion cr' nd' exportId' w'))) \<le> length (sent w') + 20
    \<and> waitForTaskCompletion cr nd exportId w
        = (Exits 1,
           w\<lparr>console := console w
                  @ [ErrorText (''Export process is still running.'' @ [CHR 0x0A]
                       @ ''You will have to download the exported data for request ID ''
                       @ exportId @ '' at a later time.'')],
             sent := sent w @ replicate 20 (pollRequest cr nd exportId, []),
             slept := slept w @ [200, 600, 1800, 5400, 16200, 48600, 60000, 60000, 60000, 60000,
                                 60000, 60000, 60000, 60000, 60000, 60000, 60000, 60000, 60000]\<rparr>)"
proof -
  have opts: "pollOptions = \<lparr>delay = 200, factor = 3, maxAttempts = 20, maxDelay = 60000\<rparr>"
    by (simp add: pollOptions_def maxStatusRetries_def)
  have active: "\<forall>k\<le>19. \<exists>r. received nd (net nd (length (sent w) + k) (pollRequest cr nd exportId) [])
                        = Resolve (Parsed r) \<and> isActive (status r)"
    using assms(2) by simp
  have "retry (handleError exportId) (rejectIfRequestActive cr nd exportId) pollOptions w
     = (Exits 1,
        w\<lparr>console := console w @ [ErrorText (stillRunning exportId)],
          sent := sent w @ replicate (Suc 19) (pollRequest cr nd exportId, []),
          slept := slept w @ map (\<lambda>k. min (200 * 3 ^ (k - 1)) 60000) [0 + 1 ..< 0 + Suc 19]\<rparr>)"
    unfolding retry_def
    using makeAttempt_exhausted [OF assms(1), of "\<lparr>attemptNum = 0, attemptsRemaining = maxAttempts pollOptions, aborted = False\<rparr>" 19 w exportId]
      active
    by (simp add: opts)
  then have "waitForTaskCompletion cr nd exportId w
     = (Exits 1,
        w\<lparr>console := console w @ [ErrorText (stillRunning exportId)],
          sent := sent w @ replicate (Suc 19) (pollRequest cr nd exportId, []),
          slept := slept w @ map (\<lambda>k. min (200 * 3 ^ (k - 1)) 60000) [0 + 1 ..< 0 + Suc 19]\<rparr>)"
    by (simp add: waitForTaskCompletion_def)
  then have "waitForTaskCompletion cr nd exportId w
        = (Exits 1,
           w\<lparr>console := console w
                  @ [ErrorText (''Export process is still running.'' @ [CHR 0x0A]
                       @ ''You will have to download the exported data for request ID ''
                       @ exportId @ '' at a later time.'')],
             sent := sent w @ replicate 20 (pollRequest cr nd exportId, []),
             slept := slept w @ [200, 600, 1800, 5400, 16200, 48600, 60000, 60000, 60000, 60000,
                                 60000, 60000, 60000, 60000, 60000, 60000, 60000, 60000, 60000]\<rparr>)"
    by (simp add: upt_rec stillRunning_def)
  with opts show ?thesis
    using calculateDelay_pollOptions [of ctx] waitForTaskCompletion_fetches [of cr' nd' exportId' w']
    by blast
qed

lemma statusNode_received:
  "received (statusNode st) (net (statusNode st) n rq payload)
     = Resolve (Parsed \<lparr>jobId = ''job1'', status = st, filenames = [], error = []\<rparr>)"
  by (simp add: received_def statusNode_def onEnd_def settle_def)

lemma statusNode_canSign: "canSign exampleCrypto (statusNode st)"
  by (simp add: canSign_def exampleCrypto_def statusNode_def)

text \<open>
  A server that always answers \<open>IN_PROGRESS\<close>: 20 requests, 19 waits, exit code 1.
\<close>

theorem waitForTaskCompletion_backoff_and_budget_witness:
  "waitForTaskCompletion exampleCrypto (statusNode ''IN_PROGRESS'') ''job1'' emptyWorld
     = (Exits 1,
        \<lparr>console = [ErrorText (''Export process is still running.'' @ [CHR 0x0A]
                       @ ''You will have to download the exported data for request ID job1 at a later time.'')],
         sent = replicate 20 (pollRequest exampleCrypto (statusNode ''IN_PROGRESS'') ''job1'', []),
         slept = [200, 600, 1800, 5400, 16200, 48600, 60000, 60000, 60000, 60000,
                  60000, 60000, 60000, 60000, 60000, 60000, 60000, 60000, 60000],
         files = []\<rparr>)"
proof -
  have "isActive ''IN_PROGRESS''"
    by (simp add: isActive_def activeStatuses_def case_defs)
  then have h: "\<forall>k<20. \<exists>r. received (statusNode ''IN_PROGRESS'')
           (net (statusNode ''IN_PROGRESS'') (length (sent emptyWorld) + k)
              (pollRequest exampleCrypto (statusNode ''IN_PROGRESS'') ''job1'') [])
         = Resolve (Parsed r) \<and> isActive (status r)"
    by (simp add: statusNode_received)
  from waitForTaskCompletion_backoff_and_budget [OF statusNode_canSign h] show ?thesis
    by (simp add: emptyWorld_def)
qed

text \<open>
  Claim C2 at the status \<open>IN\<close>. The poller asks whether the status in upper case occurs
  inside the text \<open>SUBMITTED IN_PROGRESS\<close>: \<open>IN\<close> is neither of the two active statuses, yet
  it is classified as active, and \<open>rejectIfRequestActive\<close> rejects instead of resolving with
  the task resource.
\<close>

theorem isActive_accepts_fragments:
  "isActive ''IN'' \<and> toUpperCase ''IN'' \<notin> {''SUBMITTED'', ''IN_PROGRESS''}
   \<and> fst (rejectIfRequestActive exampleCrypto (statusNode ''IN'') ''job1'' emptyWorld)
       = Throws (Error ''[object Object]'')"
proof -
  have a: "isActive ''IN''"
    by (simp add: isActive_def activeStatuses_def case_defs)
  have b: "toUpperCase ''IN'' \<notin> {''SUBMITTED'', ''IN_PROGRESS''}"
    by (simp add: case_defs)
  have "rejectIfRequestActive exampleCrypto (statusNode ''IN'') ''job1'' emptyWorld
      = (Throws (Error ''[object Object]''),
         emptyWorld\<lparr>sent := sent emptyWorld @ [(pollRequest exampleCrypto (statusNode ''IN'') ''job1'', [])]\<rparr>)"
    by (rule rejectIfRequestActive_active [OF statusNode_canSign statusNode_received]) (simp add: a)
  with a b show ?thesis
    by simp
qed

section \<open>Properties of the transport\<close>

lemma writeEvents_data:
  "writeEvents nd response (map Data cs @ es) rb (written, ended) p
     = writeEvents nd response es (rb @ concat cs) (written @ cs, ended) p"
  by (induction cs arbitrary: rb written) simp_all

lemma writeEvents_chunks:
  "writeEvents nd response (map Data cs) [] ([], False) Pending = (Pending, cs, False)"
  using writeEvents_data [of nd response cs "[]" "[]" "[]" False Pending] by simp

lemma promisifiedWriteZipResponse_signed:
  assumes "sign cr (https_request ropts) (signOptions nd) = Inr (rq, opts)"
  shows "promisifiedWriteZipResponse cr nd ropts outFile w
     = (let w1 = w\<lparr>sent := sent w @ [(rq, [])]\<rparr>
        in case net nd (length (sent w)) rq [] of
             RequestError e \<Rightarrow> (Throws (Error (js_toString e)), w1)
           | Response response \<Rightarrow>
               (case writeEvents nd response (events response) [] ([], False) Pending of
                  (p, written, ended) \<Rightarrow>
                    settled p (w1\<lparr>files := files w1 @ [(outFile, written, ended)]\<rparr>)))"
  using assms by (simp add: promisifiedWriteZipResponse_def Let_def)

lemma promisifiedWriteZipResponse_thrown:
  assumes "sign cr (https_request ropts) (signOptions nd) = Inl (e, r, opts)"
  shows "promisifiedWriteZipResponse cr nd ropts outFile w = (Throws e, w)"
  using assms by (simp add: promisifiedWriteZipResponse_def Let_def)

text \<open>
  Claim C7, as amended. For a signed request that meets a response with a status code
  below 300 whose stream emits chunks and then ends, \<open>promisifiedWriteZipResponse\<close> resolves
  with the body and not with a byte count: the text of all chunks, or what \<open>JSON.parse\<close>
  makes of that text when the content type is \<open>application/json\<close> (an exception of
  \<open>JSON.parse\<close> ends the process). The destination file receives the chunks in order and is
  ended; and each chunk is written when it arrives: once \<open>k\<close> chunks have come, the file
  holds these \<open>k\<close> chunks while the promise is still pending.
\<close>

theorem promisifiedWriteZipResponse_resolves_with_body:
  assumes "sign cr (https_request ropts) (signOptions nd) = Inr (rq, opts)"
    and "net nd (length (sent w)) rq [] = Response response"
    and "statusCode response < 300"
    and "events response = map Data chunks @ [End]"
  shows "fst (promisifiedWriteZipResponse cr nd ropts outFile w)
           = (if contentType response = Some ''application/json''
              then (case JSON_parse nd (concat chunks) of
                      None \<Rightarrow> Exits 1 | Some v \<Rightarrow> Returns v)
              else Returns (Raw (concat chunks)))
    \<and> files (snd (promisifiedWriteZipResponse cr nd ropts outFile w))
           = files w @ [(outFile, chunks, True)]
    \<and> (\<forall>k\<le>length chunks.
          writeEvents nd response (take k (events response)) [] ([], False) Pending
            = (Pending, take k chunks, False))"
proof -
  have result: "fst (promisifiedWriteZipResponse cr nd ropts outFile w)
           = (if contentType response = Some ''application/json''
              then (case JSON_parse nd (concat chunks) of
                      None \<Rightarrow> Exits 1 | Some v \<Rightarrow> Returns v)
              else Returns (Raw (concat chunks)))"
    using writeEvents_data [of nd response chunks "[End]" "[]" "[]" False Pending] assms(3)
    by (simp add: promisifiedWriteZipResponse_signed [OF assms(1)] assms(2,4) Let_def onEnd_def
          settle_def settled_def split: option.split)
  have written: "files (snd (promisifiedWriteZipResponse cr nd ropts outFile w))
           = files w @ [(outFile, chunks, True)]"
    using writeEvents_data [of nd response chunks "[End]" "[]" "[]" False Pending] assms(3)
    by (simp add: promisifiedWriteZipResponse_signed [OF assms(1)] assms(2,4) Let_def onEnd_def
          settle_def settled_def split: option.split)
  have stream: "\<forall>k\<le>length chunks.
          writeEvents nd response (take k (events response)) [] ([], False) Pending
            = (Pending, take k chunks, False)"
  proof (intro allI impI)
    fix k assume "k \<le> length chunks"
    then have "take k (events response) = map Data (take k chunks)"
      by (simp add: assms(4) take_map)
    then show "writeEvents nd response (take k (events response)) [] ([], False) Pending
            = (Pending, take k chunks, False)"
      by (simp add: writeEvents_chunks)
  qed
  from result written stream show ?thesis
    by blast
qed

lemma https_request_fields:
  "path (https_request ropts) = o_path ropts \<and> host (https_request ropts) = o_host ropts"
proof -
  have "path (foldl (\<lambda>r (name, v). setHeader r name (HStr v)) r0 hs) = path r0
        \<and> host (foldl (\<lambda>r (name, v). setHeader r name (HStr v)) r0 hs) = host r0" for r0 hs
    by (induction hs arbitrary: r0) (simp_all add: setHeader_def split: prod.split)
  then show ?thesis
    by (simp add: https_request_def)
qed

lemma downloadRequest_path:
  "path (downloadRequest cr nd exportId fileName)
     = basePath @ ''/bots/insights/dataExports/'' @ encodeURIComponent exportId
       @ ''/files/'' @ encodeURIComponent fileName"
  by (simp add: downloadRequest_def signedRequest_fields https_request_fields downloadOptions_def)

lemma download_signed:
  "canSign cr nd \<Longrightarrow>
     sign cr (https_request (downloadOptions nd exportId fileName)) (signOptions nd)
       = Inr (downloadRequest cr nd exportId fileName, signOptions nd)"
  using sign_get [of cr nd] by (simp add: downloadOptions_def downloadRequest_def)

lemma download_thrown:
  "\<not> canSign cr nd \<Longrightarrow>
     \<exists>e r opts. sign cr (https_request (downloadOptions nd exportId fileName)) (signOptions nd)
       = Inl (e, r, opts)"
  using sign_get_thrown [of cr nd] by (simp add: downloadOptions_def)

lemma encode_examples:
  "encodeURIComponent ''job1'' = ''job1''"
  "encodeURIComponent ''a.zip'' = ''a.zip''"
  "encodeURIComponent ''b.zip'' = ''b.zip''"
  by (simp_all add: encodeURIComponent_def uriUnreserved_def)

lemma exampleNode_canSign: "canSign exampleCrypto exampleNode"
  by (simp add: canSign_def exampleCrypto_def exampleNode_def)

lemma exampleNode_download:
  "net exampleNode n (downloadRequest cr exampleNode ''job1'' ''a.zip'') payload = Response zipResponse"
  "net exampleNode n (downloadRequest cr exampleNode ''job1'' ''b.zip'') payload = Response zipResponse"
  by (simp_all add: exampleNode_def downloadRequest_path encode_examples basePath_def)

text \<open>
  A download of two chunks: the promise resolves with their text, the file holds both,
  and after the first chunk alone the file holds that chunk.
\<close>

theorem promisifiedWriteZipResponse_resolves_with_body_witness:
  "fst (promisifiedWriteZipResponse exampleCrypto exampleNode
          (downloadOptions exampleNode ''job1'' ''b.zip'') ''/tmp/out/b.zip'' emptyWorld)
     = Returns (Raw ''PKzip'')
   \<and> files (snd (promisifiedWriteZipResponse exampleCrypto exampleNode
          (downloadOptions exampleNode ''job1'' ''b.zip'') ''/tmp/out/b.zip'' emptyWorld))
     = [(''/tmp/out/b.zip'', [''PK'', ''zip''], True)]
   \<and> writeEvents exampleNode zipResponse [Data ''PK''] [] ([], False) Pending
     = (Pending, [''PK''], False)"
proof -
  note g = download_signed [OF exampleNode_canSign, of "''job1''" "''b.zip''"]
  have n: "net exampleNode (length (sent emptyWorld))
             (downloadRequest exampleCrypto exampleNode ''job1'' ''b.zip'') []
           = Response zipResponse"
    by (rule exampleNode_download)
  have s: "statusCode zipResponse < 300"
    by (simp add: zipResponse_def)
  have e: "events zipResponse = map Data [''PK'', ''zip''] @ [End]"
    by (simp add: zipResponse_def)
  from promisifiedWriteZipResponse_resolves_with_body [OF g n s e, of "''/tmp/out/b.zip''"]
  have r: "fst (promisifiedWriteZipResponse exampleCrypto exampleNode
          (downloadOptions exampleNode ''job1'' ''b.zip'') ''/tmp/out/b.zip'' emptyWorld)
     = Returns (Raw ''PKzip'')"
    and f: "files (snd (promisifiedWriteZipResponse exampleCrypto exampleNode
          (downloadOptions exampleNode ''job1'' ''b.zip'') ''/tmp/out/b.zip'' emptyWorld))
     = [(''/tmp/out/b.zip'', [''PK'', ''zip''], True)]"
    and k: "\<forall>k\<le>length [''PK'', ''zip''].
          writeEvents exampleNode zipResponse (take k (events zipResponse)) [] ([], False) Pending
            = (Pending, take k [''PK'', ''zip''], False)"
    by (simp_all add: zipResponse_def emptyWorld_def)
  from k [THEN spec, of 1] have "writeEvents exampleNode zipResponse [Data ''PK''] [] ([], False) Pending
     = (Pending, [''PK''], False)"
    by (simp add: zipResponse_def)
  with r f show ?thesis
    by simp
qed

lemma promisifiedWriteZipResponse_example:
  "promisifiedWriteZipResponse exampleCrypto exampleNode
      (downloadOptions exampleNode ''job1'' ''a.zip'') ''/tmp/out/a.zip'' w
     = (Returns (Raw ''PKzip''),
        w\<lparr>sent := sent w @ [(downloadRequest exampleCrypto exampleNode ''job1'' ''a.zip'', [])],
          files := files w @ [(''/tmp/out/a.zip'', [''PK'', ''zip''], True)]\<rparr>)"
  using exampleNode_download(1) [of "length (sent w)" exampleCrypto "[]"]
  by (simp add: promisifiedWriteZipResponse_signed [OF download_signed [OF exampleNode_canSign]]
        Let_def zipResponse_def onEnd_def settle_def settled_def)

text \<open>
  Claim C7 as stated fails: for a response with status code 200 and the chunks \<open>PK\<close> and
  \<open>zip\<close>, five bytes are written to the file, and the promise resolves with the text
  \<open>PKzip\<close>, not with the number 5.
\<close>

theorem promisifiedWriteZipResponse_count_counterexample:
  "statusCode zipResponse < 300
   \<and> files (snd (promisifiedWriteZipResponse exampleCrypto exampleNode
          (downloadOptions exampleNode ''job1'' ''a.zip'') ''/tmp/out/a.zip'' emptyWorld))
     = [(''/tmp/out/a.zip'', [''PK'', ''zip''], True)]
   \<and> fst (promisifiedWriteZipResponse exampleCrypto exampleNode
          (downloadOptions exampleNode ''job1'' ''a.zip'') ''/tmp/out/a.zip'' emptyWorld)
     = Returns (Raw ''PKzip'')
   \<and> fst (promisifiedWriteZipResponse exampleCrypto exampleNode
          (downloadOptions exampleNode ''job1'' ''a.zip'') ''/tmp/out/a.zip'' emptyWorld)
     \<noteq> Returns (Number (int (byteLength ''PK'' + byteLength ''zip'')))"
  by (simp add: promisifiedWriteZipResponse_example emptyWorld_def zipResponse_def)

section \<open>Properties of the orchestrator\<close>

lemma writeExportedData_sent:
  "sent (snd (writeExportedData cr nd exportId outDir fileNames w))
     = sent w @ (if canSign cr nd
                 then map (\<lambda>f. (downloadRequest cr nd exportId f, [])) (take 1 fileNames)
                 else [])"
proof (cases fileNames)
  case Nil
  then show ?thesis
    by (simp add: writeExportedData_def)
next
  case (Cons f fs)
  let ?w1 = "log (''Downloading '' @ trim outDir @ ''/'' @ f) w"
  obtain out w2 where dl: "promisifiedWriteZipResponse cr nd (downloadOptions nd exportId f)
                             (trim outDir @ ''/'' @ f) ?w1 = (out, w2)"
    by (cases "promisifiedWriteZipResponse cr nd (downloadOptions nd exportId f)
                 (trim outDir @ ''/'' @ f) ?w1")
  have "sent (snd (promisifiedWriteZipResponse cr nd (downloadOptions nd exportId f)
                     (trim outDir @ ''/'' @ f) ?w1))
          = sent ?w1 @ (if canSign cr nd then [(downloadRequest cr nd exportId f, [])] else [])"
  proof (cases "canSign cr nd")
    case True
    then show ?thesis
      by (simp add: promisifiedWriteZipResponse_signed [OF download_signed [OF True]] Let_def
            settled_def split: exchange.split prod.split settlement.split)
  next
    case False
    from download_thrown [OF this] obtain e r opts
      where "sign cr (https_request (downloadOptions nd exportId f)) (signOptions nd)
               = Inl (e, r, opts)"
      by blast
    from promisifiedWriteZipResponse_thrown [OF this] False show ?thesis
      by simp
  qed
  then have w2: "sent w2 = sent w @ (if canSign cr nd
                                     then [(downloadRequest cr nd exportId f, [])] else [])"
    unfolding dl by (simp add: log_def)
  have "snd (writeExportedData cr nd exportId outDir fileNames w) = w2"
    using dl by (cases out) (simp_all add: writeExportedData_def Cons Let_def downloadOptions_def)
  then show ?thesis
    by (simp add: w2 Cons)
qed

lemma writeExportedData_example:
  "writeExportedData exampleCrypto exampleNode ''job1'' ''/tmp/out'' [''a.zip'', ''b.zip''] w
     = (Returns (Some (Raw ''PKzip'')),
        w\<lparr>console := console w @ [Log ''Downloading /tmp/out/a.zip''],
          sent := sent w @ [(downloadRequest exampleCrypto exampleNode ''job1'' ''a.zip'', [])],
          files := files w @ [(''/tmp/out/a.zip'', [''PK'', ''zip''], True)]\<rparr>)"
proof -
  have t: "trim ''/tmp/out'' = ''/tmp/out''"
    by (simp add: trim_def isWhiteSpace_def)
  show ?thesis
    using promisifiedWriteZipResponse_example [of "log ''Downloading /tmp/out/a.zip'' w"]
    by (simp add: writeExportedData_def Let_def t downloadOptions_def log_def)
qed

text \<open>
  Claim C1 at the file list \<open>a.zip\<close>, \<open>b.zip\<close>. The loop of \<open>writeExportedData\<close> returns
  in its first iteration: for every file list, server and output directory it requests the
  first file at most (and nothing when the request cannot be signed) and no other. With
  both downloads bound to succeed, only \<open>a.zip\<close> is requested and written; \<open>b.zip\<close> is
  never attempted.
\<close>

theorem writeExportedData_first_file_only:
  "sent (snd (writeExportedData cr nd exportId outDir fileNames w))
     = sent w @ (if canSign cr nd
                 then map (\<lambda>f. (downloadRequest cr nd exportId f, [])) (take 1 fileNames)
                 else [])
   \<and> writeExportedData exampleCrypto exampleNode ''job1'' ''/tmp/out'' [''a.zip'', ''b.zip'']
        emptyWorld
     = (Returns (Some (Raw ''PKzip'')),
        \<lparr>console = [Log ''Downloading /tmp/out/a.zip''],
         sent = [(downloadRequest exampleCrypto exampleNode ''job1'' ''a.zip'', [])],
         slept = [],
         files = [(''/tmp/out/a.zip'', [''PK'', ''zip''], True)]\<rparr>)"
  using writeExportedData_sent [of cr nd exportId outDir fileNames w]
    writeExportedData_example [of emptyWorld]
  by (simp add: emptyWorld_def)

lemma exampleNode_json:
  "\<not> str_includes (path rq) ''/files/'' \<Longrightarrow>
     received exampleNode (net exampleNode n rq payload) = Resolve (Parsed exampleTask)"
  by (simp add: received_def exampleNode_def onEnd_def settle_def)

lemma pollRequest_path:
  "path (pollRequest cr nd exportId)
     = basePath @ ''/bots/insights/dataExports/'' @ encodeURIComponent exportId"
  by (simp add: pollRequest_def signedRequest_fields https_request_fields)

lemma waitForTaskCompletion_example:
  "waitForTaskCompletion exampleCrypto exampleNode ''job1'' w
     = (Returns exampleTask,
        w\<lparr>sent := sent w @ [(pollRequest exampleCrypto exampleNode ''job1'', [])]\<rparr>)"
proof -
  have "\<not> str_includes (path (pollRequest exampleCrypto exampleNode ''job1'')) ''/files/''"
    by (simp add: pollRequest_path basePath_def encode_examples)
  then have "received exampleNode (net exampleNode (length (sent w))
                (pollRequest exampleCrypto exampleNode ''job1'') []) = Resolve (Parsed exampleTask)"
    by (rule exampleNode_json)
  moreover have "\<not> isActive (status exampleTask)"
    by (simp add: isActive_def activeStatuses_def exampleTask_def case_defs)
  ultimately have "rejectIfRequestActive exampleCrypto exampleNode ''job1'' w
      = (Returns exampleTask,
         w\<lparr>sent := sent w @ [(pollRequest exampleCrypto exampleNode ''job1'', [])]\<rparr>)"
    by (rule rejectIfRequestActive_terminal [OF exampleNode_canSign])
  then show ?thesis
    by (simp add: waitForTaskCompletion_def retry_def makeAttempt.simps [of _ _ _ _ w])
qed

lemma startOptions_request:
  "https_request startOptions
     = \<lparr>method = ''POST'', host = ''oda.example.com'',
        path = ''/api/v1/bots/insights/dataExports?botId=bot1&maxFileLength=100000000&since=2024-01-31'',
        headers = [''host'' \<mapsto> HStr ''oda.example.com'',
                   ''content-type'' \<mapsto> HStr ''application/json'']\<rparr>"
  by (simp add: https_request_def startOptions_def setHeader_def lower_names)
     (simp add: case_defs)

lemma startOptions_signed:
  "sign exampleCrypto (https_request startOptions) ((signOptions exampleNode)\<lparr>body := Some b\<rparr>)
     = Inr (signedRequest exampleCrypto (https_request startOptions)
              ((signOptions exampleNode)\<lparr>body := Some b\<rparr>),
            (signOptions exampleNode)\<lparr>body := Some b\<rparr>)"
proof -
  let ?rq = "https_request startOptions"
  let ?so = "(signOptions exampleNode)\<lparr>body := Some b\<rparr>"
  have extra: "requiresExtraHeaders ?rq"
    by (simp add: startOptions_request requiresExtraHeaders_iff case_defs)
  have h: "headersBeforeSignature exampleCrypto ?rq ?so ''host'' = Some (HStr ''oda.example.com'')"
    "headersBeforeSignature exampleCrypto ?rq ?so ''date'' = Some (HStr ''Mon, 02 Nov 2026 12:00:00 GMT'')"
    "headersBeforeSignature exampleCrypto ?rq ?so ''content-type'' = Some (HStr ''application/json'')"
    "headersBeforeSignature exampleCrypto ?rq ?so ''content-length'' = Some (HNum (length b))"
    "headersBeforeSignature exampleCrypto ?rq ?so ''x-content-sha256''
       = Some (HStr ''47DEQpj8HBSa+/TImW+5JCeuQeRkm5NMpJWZG3hSuFU='')"
    by (simp_all add: headersBeforeSignature_def extra [unfolded startOptions_request] Let_def
          falsyHeader_def bodyText_def startOptions_request exampleCrypto_def)
  have "missingHeader (?rq\<lparr>headers := headersBeforeSignature exampleCrypto ?rq ?so\<rparr>)
          (headersToSign ?rq) = None"
    by (simp add: headersToSign_def extra missingHeader_def lower_names getHeader_def h)
  moreover have "keyAlgorithm exampleCrypto (privateKey ?so) = Some ''rsa-sha256''"
    by (simp add: exampleCrypto_def)
  ultimately show ?thesis
    by (simp add: signedRequest_def sign_cases extra Let_def bodyText_def)
qed

lemma startExportTask_example:
  "startExportTask exampleCrypto exampleNode ''bot1'' (Some ''export1'') (Some ''2024-01-31'') None w
     = (Returns (Parsed exampleTask),
        w\<lparr>sent := sent w @
               [(signedRequest exampleCrypto (https_request startOptions)
                   ((signOptions exampleNode)\<lparr>body := Some (startBody (Some ''export1''))\<rparr>),
                 startBody (Some ''export1''))]\<rparr>)"
proof -
  let ?b = "startBody (Some ''export1'')"
  let ?rq = "signedRequest exampleCrypto (https_request startOptions)
               ((signOptions exampleNode)\<lparr>body := Some ?b\<rparr>)"
  have enc: "encodeURIComponent ''bot1'' = ''bot1''"
    "encodeURIComponent ''100000000'' = ''100000000''"
    "encodeURIComponent ''2024-01-31'' = ''2024-01-31''"
    by (simp_all add: encodeURIComponent_def uriUnreserved_def)
  have nonempty: "truthy (Some ?b)"
    by (simp add: truthy_def startBody_def)
  have "\<not> str_includes (path ?rq) ''/files/''"
    by (simp add: signedRequest_fields https_request_fields startOptions_def)
  then have rec: "received exampleNode (net exampleNode (length (sent w)) ?rq ?b)
                    = Resolve (Parsed exampleTask)"
    by (rule exampleNode_json)
  have o: "\<lparr>o_host = DOMAIN exampleNode,
            o_path = basePath @ ''/bots/insights/dataExports?botId='' @ encodeURIComponent ''bot1''
                     @ ''&maxFileLength='' @ encodeURIComponent maxFileLength
                     @ (''&since='' @ encodeURIComponent ''2024-01-31'') @ [],
            o_method = Some ''POST'',
            o_headers = [(''Content-Type'', ''application/json'')]\<rparr> = startOptions"
    by (simp add: startOptions_def enc basePath_def maxFileLength_def exampleNode_def)
  have "sign exampleCrypto (https_request startOptions)
          (if truthy (Some ?b) then (signOptions exampleNode)\<lparr>body := Some ?b\<rparr>
           else signOptions exampleNode)
        = Inr (?rq, (signOptions exampleNode)\<lparr>body := Some ?b\<rparr>)"
    using nonempty by (simp add: startOptions_signed)
  from promisifiedSendRequest_signed [OF this, of w] rec o show ?thesis
    by (simp add: startExportTask_def Let_def settled_def)
qed

text \<open>The whole run on the example: the task starts, the first status request reports
  \<open>EXPORT_SUCCEEDED\<close> with two file names, one file is downloaded, and the run reports
  completion.\<close>

lemma run_example:
  "run exampleCrypto exampleNode exampleParams emptyWorld
     = (Returns (),
        \<lparr>console = [Log (''The export job job1 has started.'' @ [CHR 0x0A]
                          @ ''Waiting for the job to finish...''),
                     Log ''EXPORT_SUCCEEDED'',
                     Log ''Downloading /tmp/out/a.zip'',
                     Log ''The export is done. The files are in the /tmp/out directory.''],
         sent = [(signedRequest exampleCrypto (https_request startOptions)
                    ((signOptions exampleNode)\<lparr>body := Some (startBody (Some ''export1''))\<rparr>),
                  startBody (Some ''export1'')),
                 (pollRequest exampleCrypto exampleNode ''job1'', []),
                 (downloadRequest exampleCrypto exampleNode ''job1'' ''a.zip'', [])],
         slept = [],
         files = [(''/tmp/out/a.zip'', [''PK'', ''zip''], True)]\<rparr>)"
proof -
  have t: "trim ''/tmp/out'' = ''/tmp/out''"
    by (simp add: trim_def isWhiteSpace_def)
  have dir: "isDirectory exampleNode ''/tmp/out'' = Some True"
    by (simp add: exampleNode_def)
  have d1: "isDateValid ''begin'' (Some ''2024-01-31'') w = (True, w)" for w
    by (simp add: isDateValid_def matchesPattern_def isDigit_def getTime_valid)
  have d2: "isDateValid ''end'' None w = (True, w)" for w
    by (simp add: isDateValid_def)
  have up: "toUpperCase ''EXPORT_SUCCEEDED'' = ''EXPORT_SUCCEEDED''"
    by (simp add: case_defs)
  have disp: "dispatch exampleCrypto exampleNode params ''job1'' ''/tmp/out'' exampleTask w
     = (Returns (),
        w\<lparr>console := console w @ [Log ''Downloading /tmp/out/a.zip'',
                 Log ''The export is done. The files are in the /tmp/out directory.''],
          sent := sent w @ [(downloadRequest exampleCrypto exampleNode ''job1'' ''a.zip'', [])],
          files := files w @ [(''/tmp/out/a.zip'', [''PK'', ''zip''], True)]\<rparr>)" for w params
    by (simp add: dispatch_def exampleTask_def [THEN arg_cong, of status]
          exampleTask_def [THEN arg_cong, of filenames] up writeExportedData_example log_def Let_def)
  show ?thesis
    by (simp add: run_def exampleParams_def t dir d1 d2 Let_def startExportTask_example
          exampleTask_def [THEN arg_cong, of jobId] exampleTask_def [THEN arg_cong, of status]
          waitForTaskCompletion_example disp log_def emptyWorld_def)
qed

end
